theory Spec2Isabelle
  imports Complex_Main
begin

section \<open>The diploid hidden Markov model of tinyhouse (DiploidHMM.py)\<close>

text \<open>
  The numerical kernels of \<^verbatim>\<open>DiploidHMM.py\<close> work on numpy arrays of 32-bit floats.
  This development models them in exact arithmetic: an array entry is a \<^typ>\<open>real\<close>, a
  one-dimensional array is a list, a two-dimensional array a list of rows and a
  three-dimensional array a list of two-dimensional slices. Rounding is therefore outside the
  model; every statement below is about the exact values the formulas of the code denote.

  numpy arrays are rectangular by construction. The theorems state this as a hypothesis
  (\<open>is_grid\<close>, \<open>is_tensor\<close>) wherever a read inside a row depends on it.
\<close>

subsection \<open>Errors\<close>

text \<open>
  \<^item> \<open>ZeroDivisionError\<close>: the scalar divisions \<^verbatim>\<open>e1e/n_pat\<close>, \<^verbatim>\<open>e1e/n_mat\<close>,
    \<^verbatim>\<open>double_rec/(n_mat*n_pat)\<close> inside the compiled kernels, which raise when the divisor is 0.
  \<^item> \<open>IndexError\<close>: a read or write past the end of an array.
  \<^item> \<open>ZeroNormalizer\<close>: a slice is divided by a sum that is exactly 0. numpy carries on with
    entries that are not numbers; exact arithmetic has no value for them, so the model stops
    with this outcome.
  \<^item> \<open>UnboundLocalError\<close>: a local variable is read before any branch has assigned it.
  \<^item> \<open>ValueError msg\<close>: \<^verbatim>\<open>raise ValueError(msg)\<close>.
\<close>

datatype error =
    ZeroDivisionError
  | IndexError
  | ZeroNormalizer
  | UnboundLocalError
  | ValueError string

definition bind_err :: "error + 'a \<Rightarrow> ('a \<Rightarrow> error + 'b) \<Rightarrow> error + 'b" where
  "bind_err m f = (case m of Inl e \<Rightarrow> Inl e | Inr x \<Rightarrow> f x)"

text \<open>Running a list of computations in order; the first error is the one raised.\<close>

fun sequence_err :: "(error + 'a) list \<Rightarrow> error + 'a list" where
  "sequence_err [] = Inr []"
| "sequence_err (m # ms) =
     (case m of
        Inl e \<Rightarrow> Inl e
      | Inr x \<Rightarrow> (case sequence_err ms of Inl e \<Rightarrow> Inl e | Inr xs \<Rightarrow> Inr (x # xs)))"

subsection \<open>Arrays\<close>

type_synonym grid = "real list list"
type_synonym tensor = "real list list list"

text \<open>\<^verbatim>\<open>a[i]\<close> for a non-negative index.\<close>

definition get :: "'a list \<Rightarrow> nat \<Rightarrow> error + 'a" where
  "get xs i = (if i < length xs then Inr (xs ! i) else Inl IndexError)"

text \<open>\<^verbatim>\<open>a[j, i]\<close> and \<^verbatim>\<open>a[j, k, i]\<close>.\<close>

definition get2 :: "'a list list \<Rightarrow> nat \<Rightarrow> nat \<Rightarrow> error + 'a" where
  "get2 a j i = bind_err (get a j) (\<lambda>row. get row i)"

definition get3 :: "'a list list list \<Rightarrow> nat \<Rightarrow> nat \<Rightarrow> nat \<Rightarrow> error + 'a" where
  "get3 a j k i = bind_err (get a j) (\<lambda>slice. get2 slice k i)"

text \<open>
  The two components of \<^verbatim>\<open>a.shape\<close> of a two-dimensional array. An array with no row is
  represented by the empty list, whose second extent is read as 0.
\<close>

definition n_rows :: "'a list list \<Rightarrow> nat" where
  "n_rows a = length a"

definition n_cols :: "'a list list \<Rightarrow> nat" where
  "n_cols a = (case a of [] \<Rightarrow> 0 | row # _ \<Rightarrow> length row)"

definition is_grid :: "nat \<Rightarrow> nat \<Rightarrow> 'a list list \<Rightarrow> bool" where
  "is_grid n m a = (length a = n \<and> list_all (\<lambda>row. length row = m) a)"

definition is_tensor :: "nat \<Rightarrow> nat \<Rightarrow> nat \<Rightarrow> 'a list list list \<Rightarrow> bool" where
  "is_tensor l n m t = (length t = l \<and> list_all (is_grid n m) t)"

text \<open>Arrays of a given shape all of whose entries are positive.\<close>

definition pos_grid :: "nat \<Rightarrow> nat \<Rightarrow> grid \<Rightarrow> bool" where
  "pos_grid n m a = (is_grid n m a \<and> list_all (list_all (\<lambda>x. 0 < x)) a)"

definition pos_tensor :: "nat \<Rightarrow> nat \<Rightarrow> nat \<Rightarrow> tensor \<Rightarrow> bool" where
  "pos_tensor l n m t = (length t = l \<and> list_all (pos_grid n m) t)"

text \<open>\<^verbatim>\<open>np.sum\<close> of a two- and of a three-dimensional array.\<close>

definition np_sum2 :: "grid \<Rightarrow> real" where
  "np_sum2 a = sum_list (map sum_list a)"

definition np_sum3 :: "tensor \<Rightarrow> real" where
  "np_sum3 t = sum_list (map np_sum2 t)"

text \<open>\<^verbatim>\<open>a /= s\<close> on a two-dimensional slice.\<close>

definition divide_grid :: "grid \<Rightarrow> real \<Rightarrow> error + grid" where
  "divide_grid a s = (if s = 0 then Inl ZeroNormalizer else Inr (map (map (\<lambda>x. x / s)) a))"

text \<open>The array of shape (n, m) whose entry \<open>[j, k]\<close> is \<open>f j k\<close>.\<close>

definition grid_of :: "nat \<Rightarrow> nat \<Rightarrow> (nat \<Rightarrow> nat \<Rightarrow> real) \<Rightarrow> grid" where
  "grid_of n m f = map (\<lambda>j. map (\<lambda>k. f j k) [0..<m]) [0..<n]"

text \<open>The elementwise product \<^verbatim>\<open>a * b\<close> of two slices of one shape.\<close>

definition mult_grid :: "grid \<Rightarrow> grid \<Rightarrow> grid" where
  "mult_grid a b = map2 (map2 (*)) a b"

subsection \<open>The transmission operator\<close>

text \<open>
  \<^verbatim>\<open>transmit(previous_estimate, recombination_rate, output, pat, mat)\<close> fills the caller's
  buffer \<^verbatim>\<open>output\<close>; the model returns it. \<^verbatim>\<open>pat\<close> and \<^verbatim>\<open>mat\<close> are scratch buffers that
  the function zeroes before use, so they carry no state. The two accumulation loops give
  \<open>pat0 ! j\<close> the sum of row \<open>j\<close> and \<open>mat0 ! k\<close> the sum of column \<open>k\<close>.
\<close>

definition transmit :: "grid \<Rightarrow> real \<Rightarrow> error + grid" where
  "transmit previous_estimate recombination_rate =
    (let n_pat = n_rows previous_estimate;
         n_mat = n_cols previous_estimate;
         pat0 = map (\<lambda>j. \<Sum>k\<leftarrow>[0..<n_mat]. previous_estimate ! j ! k) [0..<n_pat];
         mat0 = map (\<lambda>k. \<Sum>j\<leftarrow>[0..<n_pat]. previous_estimate ! j ! k) [0..<n_mat];
         e = recombination_rate;
         e1e = (1 - e) * e;
         e2m1 = (1 - e)\<^sup>2
     in if n_pat = 0 then Inl ZeroDivisionError
        else let pat = map (\<lambda>x. x * (e1e / real n_pat)) pat0
        in if n_mat = 0 then Inl ZeroDivisionError
        else let mat = map (\<lambda>x. x * (e1e / real n_mat)) mat0;
                 e2 = e * e / real (n_mat * n_pat)
        in Inr (map (\<lambda>j. map (\<lambda>k. previous_estimate ! j ! k * e2m1 + pat ! j + mat ! k + e2)
                  [0..<n_mat]) [0..<n_pat]))"

text \<open>
  The decomposition as the specification words it: the maternal marginal (column sum) is
  scaled by \<open>(1-e)e/nPat\<close> and the paternal marginal (row sum) by \<open>(1-e)e/nMat\<close>.
\<close>

definition paternalMarginal :: "grid \<Rightarrow> nat \<Rightarrow> real" where
  "paternalMarginal a j = (\<Sum>k\<leftarrow>[0..<n_cols a]. a ! j ! k)"

definition maternalMarginal :: "grid \<Rightarrow> nat \<Rightarrow> real" where
  "maternalMarginal a k = (\<Sum>j\<leftarrow>[0..<n_rows a]. a ! j ! k)"

definition transmit_four_terms :: "grid \<Rightarrow> real \<Rightarrow> nat \<Rightarrow> nat \<Rightarrow> real" where
  "transmit_four_terms a e j k =
     (1 - e)\<^sup>2 * a ! j ! k
     + maternalMarginal a k * ((1 - e) * e / real (n_rows a))
     + paternalMarginal a j * ((1 - e) * e / real (n_cols a))
     + e\<^sup>2 / real (n_rows a * n_cols a)"

subsection \<open>The forward and the backward pass\<close>

text \<open>
  \<^verbatim>\<open>diploid_forward\<close>. With \<^verbatim>\<open>in_place\<close> the array \<^verbatim>\<open>combined\<close> is the caller's
  \<^verbatim>\<open>point_estimate\<close> itself, so the read \<^verbatim>\<open>point_estimate[i,:,:]\<close> in the loop is a read of
  \<^verbatim>\<open>combined\<close>; otherwise it is a read of the untouched input. The first statement divides
  the slice of locus 0 by \<^verbatim>\<open>np.sum(combined[:,:])\<close>, and \<^verbatim>\<open>combined[:,:]\<close> is the whole
  three-dimensional array.
\<close>

fun forward_loop :: "tensor \<Rightarrow> real list \<Rightarrow> bool \<Rightarrow> nat list \<Rightarrow> tensor \<Rightarrow> error + tensor" where
  "forward_loop point_estimate recombination_rate in_place [] combined = Inr combined"
| "forward_loop point_estimate recombination_rate in_place (i # rest) combined =
     (case get recombination_rate i of
        Inl err \<Rightarrow> Inl err
      | Inr r \<Rightarrow>
         (case transmit (combined ! (i - 1)) r of
            Inl err \<Rightarrow> Inl err
          | Inr forward_i \<Rightarrow>
             (let point_i = (if in_place then combined else point_estimate) ! i;
                  combined_i = mult_grid point_i forward_i
              in case divide_grid combined_i (np_sum2 combined_i) of
                   Inl err \<Rightarrow> Inl err
                 | Inr normalized \<Rightarrow>
                     forward_loop point_estimate recombination_rate in_place rest
                       (combined[i := normalized]))))"

definition diploid_forward :: "tensor \<Rightarrow> real list \<Rightarrow> bool \<Rightarrow> error + tensor" where
  "diploid_forward point_estimate recombination_rate in_place =
    (let n_loci = length point_estimate;
         combined = point_estimate
     in if n_loci = 0 then Inl IndexError
        else case divide_grid (combined ! 0) (np_sum3 combined) of
               Inl err \<Rightarrow> Inl err
             | Inr first \<Rightarrow>
                 forward_loop point_estimate recombination_rate in_place [1..<n_loci]
                   (combined[0 := first]))"

text \<open>
  \<^verbatim>\<open>diploid_backward\<close>: the loop runs over \<^verbatim>\<open>range(n_loci-2, -1, -1)\<close>, that is over
  \<open>n_loci - 2, \<dots>, 0\<close>.
\<close>

fun backward_loop :: "tensor \<Rightarrow> real list \<Rightarrow> nat list \<Rightarrow> tensor \<Rightarrow> error + tensor" where
  "backward_loop point_estimate recombination_rate [] backward = Inr backward"
| "backward_loop point_estimate recombination_rate (i # rest) backward =
     (let combined_i = mult_grid (backward ! (i + 1)) (point_estimate ! (i + 1))
      in case divide_grid combined_i (np_sum2 combined_i) of
           Inl err \<Rightarrow> Inl err
         | Inr normalized \<Rightarrow>
            (case get recombination_rate i of
               Inl err \<Rightarrow> Inl err
             | Inr r \<Rightarrow>
                (case transmit normalized r of
                   Inl err \<Rightarrow> Inl err
                 | Inr out \<Rightarrow>
                     backward_loop point_estimate recombination_rate rest (backward[i := out]))))"

definition diploid_backward :: "tensor \<Rightarrow> real list \<Rightarrow> error + tensor" where
  "diploid_backward point_estimate recombination_rate =
    (let n_loci = length point_estimate;
         backward = map (map (map (\<lambda>_. 1))) point_estimate
     in backward_loop point_estimate recombination_rate (rev [0..<n_loci - 1]) backward)"

text \<open>
  \<^verbatim>\<open>diploidForwardBackward\<close>: the backward pass runs first, on the untouched emissions; the
  forward pass then runs in place; the product is normalized locus by locus.
\<close>

definition diploidForwardBackward :: "tensor \<Rightarrow> real list \<Rightarrow> error + tensor" where
  "diploidForwardBackward point_estimate recombination_rate =
    bind_err (diploid_backward point_estimate recombination_rate) (\<lambda>est.
    bind_err (diploid_forward point_estimate recombination_rate True) (\<lambda>forward.
    sequence_err (map (\<lambda>slice. divide_grid slice (np_sum2 slice)) (map2 mult_grid est forward))))"

subsection \<open>Posterior decoders\<close>

text \<open>
  The haplotype libraries are integer arrays of shape (number of haplotypes, number of loci).
  Both decoders take \<^verbatim>\<open>nLoci\<close> from the maternal library: the second unpacking of
  \<^verbatim>\<open>.shape\<close> overwrites the first.

  \<^verbatim>\<open>getDiploidDosages\<close> reads \<^verbatim>\<open>hapEst[i,j,k]\<close>; \<^verbatim>\<open>dosages[i]\<close> starts at 0 and
  accumulates one term per pair \<open>(j, k)\<close>, \<open>j\<close> in the outer and \<open>k\<close> in the inner loop.
\<close>

definition dosage_term :: "tensor \<Rightarrow> int list list \<Rightarrow> int list list \<Rightarrow> nat \<Rightarrow> nat \<times> nat \<Rightarrow> error + real" where
  "dosage_term hapEst paternalHaplotypes maternalHaplotypes i jk =
     (case jk of (j, k) \<Rightarrow>
        bind_err (get3 hapEst i j k) (\<lambda>h.
        bind_err (get2 paternalHaplotypes j i) (\<lambda>p.
        bind_err (get2 maternalHaplotypes k i) (\<lambda>m.
          Inr (h * real_of_int (p + m))))))"

definition getDiploidDosages :: "tensor \<Rightarrow> int list list \<Rightarrow> int list list \<Rightarrow> error + real list" where
  "getDiploidDosages hapEst paternalHaplotypes maternalHaplotypes =
    (let nPat = n_rows paternalHaplotypes;
         nMat = n_rows maternalHaplotypes;
         nLoci = n_cols maternalHaplotypes
     in sequence_err (map (\<lambda>i.
          bind_err
            (sequence_err (map (dosage_term hapEst paternalHaplotypes maternalHaplotypes i)
               (List.product [0..<nPat] [0..<nMat])))
            (\<lambda>terms. Inr (sum_list terms)))
        [0..<nLoci]))"

text \<open>
  The entry \<^verbatim>\<open>dosages[i]\<close> in closed form, for reads that are all in range.
\<close>

definition dosage_value :: "tensor \<Rightarrow> int list list \<Rightarrow> int list list \<Rightarrow> nat \<Rightarrow> nat \<Rightarrow> nat \<Rightarrow> real" where
  "dosage_value hapEst paternalHaplotypes maternalHaplotypes nPat nMat i =
     (\<Sum>jk\<leftarrow>List.product [0..<nPat] [0..<nMat].
        hapEst ! i ! fst jk ! snd jk
          * real_of_int (paternalHaplotypes ! fst jk ! i + maternalHaplotypes ! snd jk ! i))"

text \<open>
  \<^verbatim>\<open>getDiploidProbabilities\<close> reads \<^verbatim>\<open>hapEst[j, k, i]\<close>: the first index is the paternal
  haplotype, the second the maternal one, the third the locus. The four \<^verbatim>\<open>if\<close> statements
  exclude one another, so at most one bucket receives the entry. The read of the maternal
  allele is in range whenever it is reached (both of its bounds come from the maternal
  library), so the model makes it ahead of the test on the paternal allele.
\<close>

definition probability_bucket :: "int \<Rightarrow> int \<Rightarrow> nat option" where
  "probability_bucket p m =
     (if p = 0 \<and> m = 0 then Some 0
      else if p = 0 \<and> m = 1 then Some 1
      else if p = 1 \<and> m = 0 then Some 2
      else if p = 1 \<and> m = 1 then Some 3
      else None)"

definition probabilities_step ::
  "tensor \<Rightarrow> int list list \<Rightarrow> int list list \<Rightarrow> nat \<Rightarrow> nat \<times> nat \<Rightarrow> real list \<Rightarrow> error + real list" where
  "probabilities_step hapEst paternalHaplotypes maternalHaplotypes i jk column =
     (case jk of (j, k) \<Rightarrow>
        bind_err (get2 paternalHaplotypes j i) (\<lambda>p.
        bind_err (get2 maternalHaplotypes k i) (\<lambda>m.
          case probability_bucket p m of
            None \<Rightarrow> Inr column
          | Some b \<Rightarrow> bind_err (get3 hapEst j k i) (\<lambda>h. Inr (column[b := column ! b + h])))))"

fun fold_err :: "('a \<Rightarrow> 's \<Rightarrow> error + 's) \<Rightarrow> 'a list \<Rightarrow> 's \<Rightarrow> error + 's" where
  "fold_err f [] s = Inr s"
| "fold_err f (x # xs) s = (case f x s of Inl e \<Rightarrow> Inl e | Inr s' \<Rightarrow> fold_err f xs s')"

text \<open>
  The result has shape (4, nLoci): row \<open>b\<close> holds bucket \<open>b\<close> of every locus. The model
  computes the column of each locus and transposes.
\<close>

definition getDiploidProbabilities :: "tensor \<Rightarrow> int list list \<Rightarrow> int list list \<Rightarrow> error + grid" where
  "getDiploidProbabilities hapEst paternalHaplotypes maternalHaplotypes =
    (let nPat = n_rows paternalHaplotypes;
         nMat = n_rows maternalHaplotypes;
         nLoci = n_cols maternalHaplotypes
     in bind_err
          (sequence_err (map (\<lambda>i.
             fold_err (probabilities_step hapEst paternalHaplotypes maternalHaplotypes i)
               (List.product [0..<nPat] [0..<nMat]) [0, 0, 0, 0])
           [0..<nLoci]))
          (\<lambda>columns. Inr (map (\<lambda>b. map (\<lambda>column. column ! b) columns) [0..<4])))"

text \<open>
  What the claim asks of entry \<open>b\<close> at locus \<open>i\<close>, for a posterior indexed
  (locus, paternal, maternal) as \<^verbatim>\<open>diploidForwardBackward\<close> returns it: the posterior mass
  at locus \<open>i\<close> of the pairs whose alleles at locus \<open>i\<close> fall in bucket \<open>b\<close>.
\<close>

definition posterior_mass :: "tensor \<Rightarrow> int list list \<Rightarrow> int list list \<Rightarrow> nat \<Rightarrow> nat \<Rightarrow> real" where
  "posterior_mass posterior paternalHaplotypes maternalHaplotypes i b =
     (\<Sum>(j, k)\<leftarrow>List.product [0..<n_rows paternalHaplotypes] [0..<n_rows maternalHaplotypes].
        if probability_bucket (paternalHaplotypes ! j ! i) (maternalHaplotypes ! k ! i) = Some b
        then posterior ! i ! j ! k else 0)"

subsection \<open>The emission model\<close>

text \<open>
  \<^verbatim>\<open>getDiploidPointEstimates\<close>. \<^verbatim>\<open>a and b\<close> evaluates \<^verbatim>\<open>b\<close> only when \<^verbatim>\<open>a\<close> holds.
\<close>

definition and_also :: "error + bool \<Rightarrow> error + bool \<Rightarrow> error + bool" where
  "and_also a b = bind_err a (\<lambda>x. if x then b else Inr False)"

definition not_missing :: "int list \<Rightarrow> nat \<Rightarrow> error + bool" where
  "not_missing xs i = bind_err (get xs i) (\<lambda>v. Inr (v \<noteq> 9))"

definition phased_value :: "int \<Rightarrow> int \<Rightarrow> int \<Rightarrow> int \<Rightarrow> real \<Rightarrow> real" where
  "phased_value patObs matObs p m e =
     (let value = 1;
          value = (if patObs = p then value * (1 - e) else value * e);
          value = (if matObs = m then value * (1 - e) else value * e)
      in value)"

definition unphased_value :: "int \<Rightarrow> int \<Rightarrow> int \<Rightarrow> real \<Rightarrow> real" where
  "unphased_value geno p m e =
     (let sourceGeno = p + m
      in if sourceGeno = geno then 1 - e * e else e * e)"

definition pointEst_cell ::
  "int list \<Rightarrow> int list \<Rightarrow> int list \<Rightarrow> int list list \<Rightarrow> int list list \<Rightarrow> real list
     \<Rightarrow> nat \<Rightarrow> nat \<Rightarrow> nat \<Rightarrow> error + real" where
  "pointEst_cell indGeno indPatHap indMatHap paternalHaplotypes maternalHaplotypes error i j k =
     bind_err (and_also (not_missing indPatHap i) (not_missing indMatHap i)) (\<lambda>phased.
     bind_err (get2 paternalHaplotypes j i) (\<lambda>p.
     bind_err (get2 maternalHaplotypes k i) (\<lambda>m.
     bind_err (get error i) (\<lambda>e.
       if phased
       then bind_err (get indPatHap i) (\<lambda>patObs.
            bind_err (get indMatHap i) (\<lambda>matObs.
              Inr (phased_value patObs matObs p m e)))
       else bind_err (get indGeno i) (\<lambda>geno.
              Inr (unphased_value geno p m e))))))"

definition getDiploidPointEstimates ::
  "int list \<Rightarrow> int list \<Rightarrow> int list \<Rightarrow> int list list \<Rightarrow> int list list \<Rightarrow> real list
     \<Rightarrow> error + tensor" where
  "getDiploidPointEstimates indGeno indPatHap indMatHap paternalHaplotypes maternalHaplotypes error =
    (let nPat = n_rows paternalHaplotypes;
         nMat = n_rows maternalHaplotypes;
         nLoci = n_cols maternalHaplotypes
     in sequence_err (map (\<lambda>i.
          bind_err (not_missing indGeno i) (\<lambda>observed.
            if observed
            then sequence_err (map (\<lambda>j.
                   sequence_err (map (\<lambda>k.
                     pointEst_cell indGeno indPatHap indMatHap paternalHaplotypes
                       maternalHaplotypes error i j k)
                   [0..<nMat]))
                 [0..<nPat])
            else Inr (replicate nPat (replicate nMat 1))))
        [0..<nLoci]))"

text \<open>
  The entry \<^verbatim>\<open>pointEst[i,j,k]\<close> in closed form, for reads that are all in range: the
  initial 1 at a locus whose genotype is missing, and the value assigned by the loop body
  otherwise.
\<close>

definition pointEst_value ::
  "int list \<Rightarrow> int list \<Rightarrow> int list \<Rightarrow> int list list \<Rightarrow> int list list \<Rightarrow> real list
     \<Rightarrow> nat \<Rightarrow> nat \<Rightarrow> nat \<Rightarrow> real" where
  "pointEst_value indGeno indPatHap indMatHap paternalHaplotypes maternalHaplotypes error i j k =
     (if indGeno ! i = 9 then 1
      else if indPatHap ! i \<noteq> 9 \<and> indMatHap ! i \<noteq> 9
      then phased_value (indPatHap ! i) (indMatHap ! i)
             (paternalHaplotypes ! j ! i) (maternalHaplotypes ! k ! i) (error ! i)
      else unphased_value (indGeno ! i)
             (paternalHaplotypes ! j ! i) (maternalHaplotypes ! k ! i) (error ! i))"

text \<open>
  \<^verbatim>\<open>getDiploidPointEstimates_probs\<close> fills an array of shape (nPat, nMat, nLoci). Its local
  \<^verbatim>\<open>value\<close> is assigned only when both alleles are 0 or 1, and keeps its last value
  otherwise; the loops run over \<open>i\<close>, then \<open>j\<close>, then \<open>k\<close>.
\<close>

definition probs_value ::
  "real \<Rightarrow> real \<Rightarrow> real \<Rightarrow> real \<Rightarrow> real \<Rightarrow> int \<Rightarrow> int \<Rightarrow> real option \<Rightarrow> real option" where
  "probs_value p_aa p_aA p_Aa p_AA e p m value =
     (let value = (if p = 0 \<and> m = 0
                   then Some (p_aa * (1 - e)\<^sup>2 + (p_aA + p_Aa) * e * (1 - e) + p_AA * e\<^sup>2)
                   else value);
          value = (if p = 1 \<and> m = 0
                   then Some (p_Aa * (1 - e)\<^sup>2 + (p_aa + p_AA) * e * (1 - e) + p_aA * e\<^sup>2)
                   else value);
          value = (if p = 0 \<and> m = 1
                   then Some (p_aA * (1 - e)\<^sup>2 + (p_aa + p_AA) * e * (1 - e) + p_Aa * e\<^sup>2)
                   else value);
          value = (if p = 1 \<and> m = 1
                   then Some (p_AA * (1 - e)\<^sup>2 + (p_aA + p_Aa) * e * (1 - e) + p_aa * e\<^sup>2)
                   else value)
      in value)"

definition probs_step ::
  "grid \<Rightarrow> int list list \<Rightarrow> int list list \<Rightarrow> real list \<Rightarrow> nat \<times> nat \<times> nat
     \<Rightarrow> real option \<times> tensor \<Rightarrow> error + real option \<times> tensor" where
  "probs_step indProbs paternalHaplotypes maternalHaplotypes error ijk state =
     (case (ijk, state) of ((i, j, k), (value, pointEst)) \<Rightarrow>
        bind_err (get2 indProbs 0 i) (\<lambda>p_aa.
        bind_err (get2 indProbs 1 i) (\<lambda>p_aA.
        bind_err (get2 indProbs 2 i) (\<lambda>p_Aa.
        bind_err (get2 indProbs 3 i) (\<lambda>p_AA.
        bind_err (get error i) (\<lambda>e.
        bind_err (get2 paternalHaplotypes j i) (\<lambda>p.
        bind_err (get2 maternalHaplotypes k i) (\<lambda>m.
          case probs_value p_aa p_aA p_Aa p_AA e p m value of
            None \<Rightarrow> Inl UnboundLocalError
          | Some v \<Rightarrow>
              Inr (Some v, pointEst[j := (pointEst ! j)[k := (pointEst ! j ! k)[i := v]]])))))))))"

definition getDiploidPointEstimates_probs ::
  "grid \<Rightarrow> int list list \<Rightarrow> int list list \<Rightarrow> real list \<Rightarrow> error + tensor" where
  "getDiploidPointEstimates_probs indProbs paternalHaplotypes maternalHaplotypes error =
    (let nPat = n_rows paternalHaplotypes;
         nMat = n_rows maternalHaplotypes;
         nLoci = n_cols maternalHaplotypes;
         pointEst = replicate nPat (replicate nMat (replicate nLoci 1))
     in bind_err
          (fold_err (probs_step indProbs paternalHaplotypes maternalHaplotypes error)
             (List.product [0..<nLoci] (List.product [0..<nPat] [0..<nMat])) (None, pointEst))
          (\<lambda>state. Inr (snd state)))"

subsection \<open>The stochastic path sampler\<close>

text \<open>\<^verbatim>\<open>output[j, k] += v\<close> for non-negative indices.\<close>

definition add_at :: "grid \<Rightarrow> nat \<Rightarrow> nat \<Rightarrow> real \<Rightarrow> error + grid" where
  "add_at output j k v =
     (if j < length output \<and> k < length (output ! j)
      then Inr (output[j := (output ! j)[k := output ! j ! k + v]])
      else Inl IndexError)"

text \<open>
  \<^verbatim>\<open>combine_backward_sampled_value\<close> up to, and excluding, its last assignment
  \<^verbatim>\<open>output *= previous_estimate\<close>: the additive kernel built in \<^verbatim>\<open>output\<close>.
\<close>

definition backward_kernel :: "nat \<Rightarrow> nat \<Rightarrow> nat \<Rightarrow> nat \<Rightarrow> real \<Rightarrow> error + grid" where
  "backward_kernel n_pat n_mat pat_hap mat_hap recombination_rate =
    (let e = recombination_rate;
         single_rec = (1 - e) * e;
         no_rec = (1 - e)\<^sup>2;
         double_rec = e * e
     in if n_mat * n_pat = 0 then Inl ZeroDivisionError
        else
          bind_err (Inr (replicate n_pat (replicate n_mat (double_rec / real (n_mat * n_pat)))))
            (\<lambda>output.
          bind_err (fold_err (\<lambda>k out. add_at out pat_hap k (single_rec / real n_mat))
                      [0..<n_mat] output) (\<lambda>output.
          bind_err (fold_err (\<lambda>j out. add_at out j mat_hap (single_rec / real n_pat))
                      [0..<n_pat] output) (\<lambda>output.
          add_at output pat_hap mat_hap no_rec))))"

text \<open>
  The kernel as the specification words it: \<open>(1-e)\<^sup>2\<close> at the sampled pair,
  \<open>(1-e)e/nMat\<close> on the cells sharing the sampled paternal index, \<open>(1-e)e/nPat\<close> on the cells
  sharing the sampled maternal index, and \<open>e\<^sup>2/(nPat nMat)\<close> everywhere.
\<close>

definition kernel_value :: "nat \<Rightarrow> nat \<Rightarrow> nat \<Rightarrow> nat \<Rightarrow> real \<Rightarrow> nat \<Rightarrow> nat \<Rightarrow> real" where
  "kernel_value n_pat n_mat pat_hap mat_hap e j k =
     (if j = pat_hap \<and> k = mat_hap then (1 - e)\<^sup>2 else 0)
     + (if j = pat_hap then (1 - e) * e / real n_mat else 0)
     + (if k = mat_hap then (1 - e) * e / real n_pat else 0)
     + e\<^sup>2 / real (n_pat * n_mat)"

definition combine_backward_sampled_value :: "grid \<Rightarrow> nat \<Rightarrow> nat \<Rightarrow> real \<Rightarrow> error + grid" where
  "combine_backward_sampled_value previous_estimate pat_hap mat_hap recombination_rate =
     bind_err
       (backward_kernel (n_rows previous_estimate) (n_cols previous_estimate) pat_hap mat_hap
          recombination_rate)
       (\<lambda>output. Inr (mult_grid output previous_estimate))"

text \<open>
  \<^verbatim>\<open>diploidOneSample\<close>. \<^verbatim>\<open>NumbaUtils.multinomial_sample_2d\<close> is not among the sources; it is a
  parameter \<open>sample\<close> that threads the state \<open>'g\<close> of the random generator it draws from.
  \<open>sampling_weights\<close> is the value of \<^verbatim>\<open>pvals\<close> that the loop body hands to it at locus \<open>i\<close>.
  The index arrays come from \<^verbatim>\<open>np.empty\<close>; each entry is written before it is read.
\<close>

definition sampling_weights :: "tensor \<Rightarrow> real list \<Rightarrow> nat list \<Rightarrow> nat list \<Rightarrow> nat \<Rightarrow> error + grid" where
  "sampling_weights forward_probs recombination_rate paternal_indices maternal_indices i =
     (let n_loci = length forward_probs
      in if i = n_loci - 1 then Inr (forward_probs ! i)
         else bind_err (get paternal_indices (i + 1)) (\<lambda>pat_hap.
              bind_err (get maternal_indices (i + 1)) (\<lambda>mat_hap.
              bind_err (get recombination_rate (i + 1)) (\<lambda>r.
                combine_backward_sampled_value (forward_probs ! i) pat_hap mat_hap r))))"

fun sample_loop ::
  "('g \<Rightarrow> grid \<Rightarrow> (nat \<times> nat) \<times> 'g) \<Rightarrow> tensor \<Rightarrow> real list \<Rightarrow> nat list
     \<Rightarrow> grid \<times> nat list \<times> nat list \<times> 'g \<Rightarrow> error + grid \<times> nat list \<times> nat list \<times> 'g" where
  "sample_loop sample forward_probs recombination_rate [] state = Inr state"
| "sample_loop sample forward_probs recombination_rate (i # rest)
       (pvals, paternal_indices, maternal_indices, rng) =
     (case sampling_weights forward_probs recombination_rate paternal_indices maternal_indices i of
        Inl err \<Rightarrow> Inl err
      | Inr pvals' \<Rightarrow>
         (case sample rng pvals' of ((j, k), rng') \<Rightarrow>
            sample_loop sample forward_probs recombination_rate rest
              (pvals', paternal_indices[i := j], maternal_indices[i := k], rng')))"

definition diploidOneSample ::
  "('g \<Rightarrow> grid \<Rightarrow> (nat \<times> nat) \<times> 'g) \<Rightarrow> tensor \<Rightarrow> real list \<Rightarrow> 'g
     \<Rightarrow> error + nat list \<times> nat list \<times> 'g" where
  "diploidOneSample sample forward_probs recombination_rate rng =
    (let n_loci = length forward_probs
     in bind_err
          (sample_loop sample forward_probs recombination_rate (rev [0..<n_loci])
             ([], replicate n_loci 0, replicate n_loci 0, rng))
          (\<lambda>state. case state of (pvals, paternal_indices, maternal_indices, rng') \<Rightarrow>
             (case sample rng' pvals of ((j, k), rng'') \<Rightarrow>
                if n_loci = 0 then Inl IndexError
                else Inr (paternal_indices[0 := j], maternal_indices[0 := k], rng''))))"

subsection \<open>The entry point\<close>

text \<open>
  The fields of \<^verbatim>\<open>Individual\<close> (Pedigree.py) that \<^verbatim>\<open>diploidHMM\<close> touches. \<^verbatim>\<open>dosages\<close> and
  \<^verbatim>\<open>info\<close> are \<^verbatim>\<open>None\<close> until a decoder stores its result.
\<close>

record individual =
  genotypes :: "int list"
  haplotypes :: "int list \<times> int list"
  dosages :: "real list option"
  info :: "grid option"

text \<open>\<^verbatim>\<open>error\<close> and \<^verbatim>\<open>recombinationRate\<close> are a float, expanded to all loci, or an array.\<close>

datatype rate = Uniform real | PerLocus "real list"

fun expand_rate :: "nat \<Rightarrow> rate \<Rightarrow> real list" where
  "expand_rate nLoci (Uniform x) = replicate nLoci x"
| "expand_rate nLoci (PerLocus xs) = xs"

text \<open>
  The model records, in order, the computations \<^verbatim>\<open>diploidHMM\<close> has called by the time it
  returns or raises. \<^verbatim>\<open>ProbMath.getGenotypeProbabilities_ind\<close> is not among the sources and
  is a parameter.
\<close>

datatype kernel_call =
    Call_getDiploidPointEstimates
  | Call_getGenotypeProbabilities_ind
  | Call_getDiploidPointEstimates_probs
  | Call_diploidForwardBackward
  | Call_getDiploidDosages
  | Call_getDiploidProbabilities

record run =
  raised :: "error option"
  ind_after :: individual
  calls :: "kernel_call list"

text \<open>Lines 29 to 33: the emission tensor and the calls that produce it.\<close>

definition diploidHMM_pointEst ::
  "(individual \<Rightarrow> grid) \<Rightarrow> individual \<Rightarrow> int list list \<Rightarrow> int list list \<Rightarrow> real list \<Rightarrow> bool
     \<Rightarrow> (error + tensor) \<times> kernel_call list" where
  "diploidHMM_pointEst getGenotypeProbabilities_ind ind paternalHaplotypes maternalHaplotypes
       error useCalledHaps =
     (if useCalledHaps
      then (getDiploidPointEstimates (genotypes ind) (fst (haplotypes ind)) (snd (haplotypes ind))
              paternalHaplotypes maternalHaplotypes error,
            [Call_getDiploidPointEstimates])
      else (let probs = getGenotypeProbabilities_ind ind
            in (getDiploidPointEstimates_probs probs paternalHaplotypes maternalHaplotypes error,
                [Call_getGenotypeProbabilities_ind, Call_getDiploidPointEstimates_probs])))"

text \<open>Lines 47 to 58: the four \<^verbatim>\<open>if\<close> statements on \<^verbatim>\<open>callingMethod\<close>, in order.\<close>

definition diploidHMM_dispatch ::
  "individual \<Rightarrow> tensor \<Rightarrow> int list list \<Rightarrow> int list list \<Rightarrow> string \<Rightarrow> kernel_call list \<Rightarrow> run" where
  "diploidHMM_dispatch ind hapEst paternalHaplotypes maternalHaplotypes callingMethod done =
     (let r0 = \<lparr>raised = None, ind_after = ind, calls = done\<rparr>;
          r1 = (if callingMethod = ''dosages''
                then (case getDiploidDosages hapEst paternalHaplotypes maternalHaplotypes of
                        Inl err \<Rightarrow> r0\<lparr>raised := Some err, calls := calls r0 @ [Call_getDiploidDosages]\<rparr>
                      | Inr d \<Rightarrow> r0\<lparr>ind_after := (ind_after r0)\<lparr>dosages := Some d\<rparr>,
                                     calls := calls r0 @ [Call_getDiploidDosages]\<rparr>)
                else r0);
          r2 = (if raised r1 = None \<and> callingMethod = ''probabilities''
                then (case getDiploidProbabilities hapEst paternalHaplotypes maternalHaplotypes of
                        Inl err \<Rightarrow> r1\<lparr>raised := Some err,
                                       calls := calls r1 @ [Call_getDiploidProbabilities]\<rparr>
                      | Inr v \<Rightarrow> r1\<lparr>ind_after := (ind_after r1)\<lparr>info := Some v\<rparr>,
                                     calls := calls r1 @ [Call_getDiploidProbabilities]\<rparr>)
                else r1);
          r3 = (if raised r2 = None \<and> callingMethod = ''callhaps''
                then r2\<lparr>raised := Some (ValueError ''callhaps not yet implimented.'')\<rparr>
                else r2);
          r4 = (if raised r3 = None \<and> callingMethod = ''viterbi''
                then r3\<lparr>raised := Some (ValueError ''Viterbi not yet implimented.'')\<rparr>
                else r3)
      in r4)"

definition diploidHMM ::
  "(individual \<Rightarrow> grid) \<Rightarrow> individual \<Rightarrow> int list list \<Rightarrow> int list list \<Rightarrow> rate \<Rightarrow> rate
     \<Rightarrow> string \<Rightarrow> bool \<Rightarrow> run" where
  "diploidHMM getGenotypeProbabilities_ind ind paternalHaplotypes maternalHaplotypes error
       recombinationRate callingMethod useCalledHaps =
    (let nLoci = length (genotypes ind);
         error = expand_rate nLoci error;
         recombinationRate = expand_rate nLoci recombinationRate
     in case diploidHMM_pointEst getGenotypeProbabilities_ind ind paternalHaplotypes
               maternalHaplotypes error useCalledHaps of
          (Inl err, done) \<Rightarrow> \<lparr>raised = Some err, ind_after = ind, calls = done\<rparr>
        | (Inr pointEst, done) \<Rightarrow>
            (case diploidForwardBackward pointEst recombinationRate of
               Inl err \<Rightarrow>
                 \<lparr>raised = Some err, ind_after = ind, calls = done @ [Call_diploidForwardBackward]\<rparr>
             | Inr hapEst \<Rightarrow>
                 diploidHMM_dispatch ind hapEst paternalHaplotypes maternalHaplotypes callingMethod
                   (done @ [Call_diploidForwardBackward])))"

section \<open>Properties\<close>

subsection \<open>Shapes, sums and error plumbing\<close>

lemma is_grid_nth: "is_grid n m a \<Longrightarrow> j < n \<Longrightarrow> length (a ! j) = m"
  by (simp add: is_grid_def list_all_length)

lemma is_grid_n_rows: "is_grid n m a \<Longrightarrow> n_rows a = n"
  by (simp add: is_grid_def n_rows_def)

lemma is_grid_n_cols: "is_grid n m a \<Longrightarrow> 0 < n \<Longrightarrow> n_cols a = m"
  by (cases a) (auto simp: is_grid_def n_cols_def)

lemma np_sum2_divide: "np_sum2 (map (map (\<lambda>x. x / s)) a) = np_sum2 a / s"
proof -
  have row: "sum_list (map (\<lambda>x. x / s) r) = sum_list r / s" for r :: "real list"
    by (induction r) (simp_all add: add_divide_distrib)
  show ?thesis
    unfolding np_sum2_def
    by (induction a) (simp_all add: row add_divide_distrib)
qed

lemma divide_grid_sum: "divide_grid a (np_sum2 a) = Inr b \<Longrightarrow> np_sum2 b = 1"
  by (auto simp: divide_grid_def np_sum2_divide split: if_splits)

lemma sequence_err_Inr:
  "sequence_err ms = Inr xs \<Longrightarrow>
     length xs = length ms \<and> (\<forall>i<length ms. ms ! i = Inr (xs ! i))"
proof (induction ms arbitrary: xs)
  case Nil
  then show ?case by simp
next
  case (Cons m ms)
  then show ?case
    by (auto split: sum.splits simp: nth_Cons split: nat.splits)
qed

subsection \<open>The transmission operator\<close>

text \<open>
  What \<^verbatim>\<open>transmit\<close> writes into a cell: the row sum is scaled by \<open>(1-e)e/n_pat\<close> and the
  column sum by \<open>(1-e)e/n_mat\<close>.
\<close>

lemma transmit_cell:
  assumes "is_grid n m a" "j < n" "k < m"
  shows "\<exists>out. transmit a e = Inr out \<and> is_grid n m out \<and>
           out ! j ! k = a ! j ! k * (1 - e)\<^sup>2
             + paternalMarginal a j * ((1 - e) * e / real n)
             + maternalMarginal a k * ((1 - e) * e / real m)
             + e * e / real (m * n)"
proof -
  from assms have n: "n_rows a = n" and m: "n_cols a = m"
    by (auto simp: is_grid_n_rows is_grid_n_cols)
  from assms have pos: "n \<noteq> 0" "m \<noteq> 0" by auto
  show ?thesis
    using assms pos
    by (simp add: transmit_def Let_def n m paternalMarginal_def maternalMarginal_def
        is_grid_def list_all_length)
qed

text \<open>
  C1 (the four-term decomposition of the transmission operator). On the normalized 1 x 2
  distribution \<open>[[1/2, 1/2]]\<close> with recombination rate \<open>1/2\<close> the code returns \<open>9/16\<close> in
  both cells, while the four terms of the claim add up to \<open>1/2\<close> in both cells: the code
  divides the paternal marginal by the number of paternal haplotypes and the maternal marginal
  by the number of maternal haplotypes, the claim pairs them the other way round. The two
  agree only on square grids.
\<close>

theorem transmit_marginal_divisors_swapped:
  "transmit [[1/2, 1/2]] (1/2) = Inr [[9/16, 9/16]]
   \<and> transmit_four_terms [[1/2, 1/2]] (1/2) 0 0 = 1/2
   \<and> transmit_four_terms [[1/2, 1/2]] (1/2) 0 1 = 1/2
   \<and> np_sum2 [[9/16, 9/16]] = 9/8"
  by code_simp

subsection \<open>The forward pass\<close>

text \<open>
  C2 (the forward pass normalizes the slice of locus 0). For the two-locus emission tensor
  \<open>[[[3, 1]], [[2, 2]]]\<close> the slice of locus 0 has sum 4, so the claim asks for
  \<open>[[3/4, 1/4]]\<close> at locus 0. The code divides by the sum 8 of the whole tensor and returns
  \<open>[[3/8, 1/8]]\<close>, whose sum is \<open>1/2\<close>, in place or not.
\<close>

theorem diploid_forward_first_locus_divided_by_total:
  "diploid_forward [[[3, 1]], [[2, 2]]] [1/2, 1/2] False
     = Inr [[[3/8, 1/8]], [[25/44, 19/44]]]
   \<and> diploid_forward [[[3, 1]], [[2, 2]]] [1/2, 1/2] True
     = Inr [[[3/8, 1/8]], [[25/44, 19/44]]]
   \<and> divide_grid [[3, 1]] (np_sum2 [[3, 1]]) = Inr [[3/4, 1/4]]
   \<and> np_sum2 [[3/8, 1/8]] = 1/2"
  by code_simp

subsection \<open>Forward-backward\<close>

lemma forward_loop_length:
  "forward_loop pe rr ip is c = Inr c' \<Longrightarrow> length c' = length c"
  by (induction pe rr ip "is" c rule: forward_loop.induct)
     (auto split: sum.splits simp: Let_def)

lemma backward_loop_length:
  "backward_loop pe rr is b = Inr b' \<Longrightarrow> length b' = length b"
  by (induction pe rr "is" b rule: backward_loop.induct)
     (auto split: sum.splits simp: Let_def)

lemma diploid_forward_length:
  "diploid_forward pe rr ip = Inr c \<Longrightarrow> length c = length pe"
  by (auto simp: diploid_forward_def Let_def split: if_splits sum.splits dest: forward_loop_length)

lemma diploid_backward_length:
  "diploid_backward pe rr = Inr b \<Longrightarrow> length b = length pe"
  by (auto simp: diploid_backward_def Let_def dest: backward_loop_length)

text \<open>
  C3 (normalization of the posterior). The model returns \<open>Inr\<close> exactly when no division
  along the way (the normalizations of the backward pass, of the forward pass and of the last
  loop) meets a sum equal to 0 and no kernel raises. Then the posterior has one slice per
  locus and every slice sums to 1.
\<close>

theorem diploidForwardBackward_normalized:
  assumes "diploidForwardBackward point_estimate recombination_rate = Inr posterior"
  shows "length posterior = length point_estimate
         \<and> (\<forall>i<length point_estimate. np_sum2 (posterior ! i) = 1)"
proof -
  from assms obtain est forward where
    b: "diploid_backward point_estimate recombination_rate = Inr est" and
    f: "diploid_forward point_estimate recombination_rate True = Inr forward" and
    s: "sequence_err (map (\<lambda>slice. divide_grid slice (np_sum2 slice)) (map2 mult_grid est forward))
          = Inr posterior"
    by (auto simp: diploidForwardBackward_def bind_err_def split: sum.splits)
  let ?prod = "map2 mult_grid est forward"
  have len: "length ?prod = length point_estimate"
    using diploid_backward_length [OF b] diploid_forward_length [OF f] by simp
  from sequence_err_Inr [OF s] have
    l: "length posterior = length ?prod" and
    c: "\<And>i. i < length ?prod \<Longrightarrow>
          divide_grid (?prod ! i) (np_sum2 (?prod ! i)) = Inr (posterior ! i)"
    by simp_all
  show ?thesis
    using l len c divide_grid_sum by auto
qed

theorem diploidForwardBackward_normalized_witness:
  "diploidForwardBackward [[[3, 1]], [[2, 2]]] [1/2, 1/2]
     = Inr [[[3/4, 1/4]], [[25/44, 19/44]]]
   \<and> length [[[3/4, 1/4]], [[25/44, 19/44 :: real]]] = 2
   \<and> np_sum2 ([[[3/4, 1/4]], [[25/44, 19/44]]] ! 0) = 1
   \<and> np_sum2 ([[[3/4, 1/4]], [[25/44, 19/44]]] ! 1) = 1"
proof -
  have run: "diploidForwardBackward [[[3, 1]], [[2, 2]]] [1/2, 1/2]
     = Inr [[[3/4, 1/4]], [[25/44, 19/44]]]"
    by code_simp
  from diploidForwardBackward_normalized [OF run] show ?thesis
    using run by (simp add: np_sum2_def)
qed

subsection \<open>The entry point\<close>

text \<open>
  C4 as stated (the unimplemented modes fail at the entry point, before any computation) does
  not hold: with \<^verbatim>\<open>callingMethod = "callhaps"\<close> the emission tensor is built and the
  forward-backward recursion is run before \<^verbatim>\<open>ValueError\<close> is raised, since the test on
  \<^verbatim>\<open>callingMethod\<close> is the last statement of \<^verbatim>\<open>diploidHMM\<close>.
\<close>

theorem diploidHMM_unimplemented_before_any_computation_counterexample:
  "diploidHMM (\<lambda>_. [])
     \<lparr>genotypes = [1, 9], haplotypes = ([9, 9], [9, 9]), dosages = None, info = None\<rparr>
     [[0, 1]] [[1, 0]] (Uniform (1/100)) (Uniform (1/2)) ''callhaps'' True
   = \<lparr>raised = Some (ValueError ''callhaps not yet implimented.''),
      ind_after = \<lparr>genotypes = [1, 9], haplotypes = ([9, 9], [9, 9]), dosages = None,
                    info = None\<rparr>,
      calls = [Call_getDiploidPointEstimates, Call_diploidForwardBackward]\<rparr>
   \<and> calls (diploidHMM (\<lambda>_. [])
       \<lparr>genotypes = [1, 9], haplotypes = ([9, 9], [9, 9]), dosages = None, info = None\<rparr>
       [[0, 1]] [[1, 0]] (Uniform (1/100)) (Uniform (1/2)) ''callhaps'' True) \<noteq> []"
  by code_simp


text \<open>
  C4, amended: on every input for which the emission construction and the forward-backward
  recursion complete, \<^verbatim>\<open>callingMethod\<close> \<^verbatim>\<open>"callhaps"\<close> or \<^verbatim>\<open>"viterbi"\<close> ends in
  \<^verbatim>\<open>ValueError\<close> with the message of that mode, raised after these two computations have run;
  no decoder is called and the individual is left as it was.
\<close>

theorem diploidHMM_unimplemented_modes:
  assumes "callingMethod = ''callhaps'' \<or> callingMethod = ''viterbi''"
    and "diploidHMM_pointEst getGenotypeProbabilities_ind ind paternalHaplotypes maternalHaplotypes
           (expand_rate (length (genotypes ind)) error) useCalledHaps = (Inr pointEst, done)"
    and "diploidForwardBackward pointEst (expand_rate (length (genotypes ind)) recombinationRate)
           = Inr hapEst"
  shows "diploidHMM getGenotypeProbabilities_ind ind paternalHaplotypes maternalHaplotypes error
           recombinationRate callingMethod useCalledHaps
         = \<lparr>raised = Some (ValueError (if callingMethod = ''callhaps''
                                         then ''callhaps not yet implimented.''
                                         else ''Viterbi not yet implimented.'')),
            ind_after = ind,
            calls = done @ [Call_diploidForwardBackward]\<rparr>"
  using assms by (auto simp: diploidHMM_def diploidHMM_dispatch_def Let_def)

theorem diploidHMM_unimplemented_modes_witness:
  "diploidHMM (\<lambda>_. [])
     \<lparr>genotypes = [1, 9], haplotypes = ([9, 9], [9, 9]), dosages = None, info = None\<rparr>
     [[0, 1]] [[1, 0], [1, 1]] (Uniform (1/10)) (Uniform (1/2)) ''viterbi'' True
   = \<lparr>raised = Some (ValueError ''Viterbi not yet implimented.''),
      ind_after = \<lparr>genotypes = [1, 9], haplotypes = ([9, 9], [9, 9]), dosages = None,
                    info = None\<rparr>,
      calls = [Call_getDiploidPointEstimates, Call_diploidForwardBackward]\<rparr>"
proof -
  let ?ind = "\<lparr>genotypes = [1, 9], haplotypes = ([9, 9], [9, 9]), dosages = None,
                info = None\<rparr>"
  have mode: "''viterbi'' = ''callhaps'' \<or> ''viterbi'' = ''viterbi''"
    by simp
  have emission: "diploidHMM_pointEst (\<lambda>_. []) ?ind [[0, 1]] [[1, 0], [1, 1]]
      (expand_rate (length (genotypes ?ind)) (Uniform (1/10))) True
    = (Inr [[[99/100, 99/100]], [[1, 1]]], [Call_getDiploidPointEstimates])"
    by code_simp
  have posterior: "diploidForwardBackward [[[99/100, 99/100]], [[1, 1]]]
      (expand_rate (length (genotypes ?ind)) (Uniform (1/2)))
    = Inr [[[1/2, 1/2]], [[1/2, 1/2]]]"
    by code_simp
  from diploidHMM_unimplemented_modes [OF mode emission posterior]
  show ?thesis by simp
qed


subsection \<open>Posterior decoders\<close>

text \<open>
  C5 (genotype-class probabilities). The posterior below is the one
  \<^verbatim>\<open>diploidForwardBackward\<close> returns for two loci and a 2 x 2 grid; it is indexed
  (locus, paternal, maternal). \<^verbatim>\<open>getDiploidProbabilities\<close> reads it as
  (paternal, maternal, locus): at locus 0 it returns \<open>2/5\<close> in bucket 2 and \<open>1/5\<close> in bucket 3,
  where the posterior mass of the pairs with alleles (1,0) and (1,1) at locus 0 is \<open>19/80\<close> and
  \<open>17/80\<close>. \<^verbatim>\<open>getDiploidDosages\<close>, on the same posterior, reads \<^verbatim>\<open>hapEst[i,j,k]\<close>.
\<close>

theorem getDiploidProbabilities_reads_transposed:
  "diploidForwardBackward [[[1, 1], [1, 1]], [[2, 1], [1, 1]]] [1/2, 1/2]
     = Inr [[[5/16, 19/80], [19/80, 17/80]], [[2/5, 1/5], [1/5, 1/5]]]
   \<and> getDiploidProbabilities [[[5/16, 19/80], [19/80, 17/80]], [[2/5, 1/5], [1/5, 1/5]]]
       [[0, 0], [1, 1]] [[0, 0], [1, 1]]
     = Inr [[5/16, 19/80], [19/80, 17/80], [2/5, 1/5], [1/5, 1/5]]
   \<and> map (\<lambda>b. map (\<lambda>i. posterior_mass
                [[[5/16, 19/80], [19/80, 17/80]], [[2/5, 1/5], [1/5, 1/5]]]
                [[0, 0], [1, 1]] [[0, 0], [1, 1]] i b) [0..<2]) [0..<4]
     = [[5/16, 2/5], [19/80, 1/5], [19/80, 1/5], [17/80, 1/5]]
   \<and> getDiploidDosages [[[5/16, 19/80], [19/80, 17/80]], [[2/5, 1/5], [1/5, 1/5]]]
       [[0, 0], [1, 1]] [[0, 0], [1, 1]]
     = Inr [9/10, 4/5]"
  by code_simp

subsection \<open>The emission model\<close>

lemma get_Inr: "i < length xs \<Longrightarrow> get xs i = Inr (xs ! i)"
  by (simp add: get_def)

lemma get2_Inr: "is_grid n m a \<Longrightarrow> j < n \<Longrightarrow> i < m \<Longrightarrow> get2 a j i = Inr (a ! j ! i)"
  by (simp add: get2_def get_def bind_err_def is_grid_def list_all_length)

lemma get3_Inr:
  "is_tensor l n m t \<Longrightarrow> i < l \<Longrightarrow> j < n \<Longrightarrow> k < m \<Longrightarrow> get3 t i j k = Inr (t ! i ! j ! k)"
  using get2_Inr [of n m "t ! i" j k]
  by (simp add: get3_def get_def bind_err_def is_tensor_def list_all_length)

lemma sequence_err_map_Inr:
  "(\<And>x. x \<in> set xs \<Longrightarrow> f x = Inr (g x)) \<Longrightarrow> sequence_err (map f xs) = Inr (map g xs)"
  by (induction xs) simp_all

lemma pointEst_cell_Inr:
  assumes "is_grid nPat nLoci paternalHaplotypes" "is_grid nMat nLoci maternalHaplotypes"
    and "length indGeno = nLoci" "length indPatHap = nLoci" "length indMatHap = nLoci"
    and "length error = nLoci"
    and "i < nLoci" "j < nPat" "k < nMat" "indGeno ! i \<noteq> 9"
  shows "pointEst_cell indGeno indPatHap indMatHap paternalHaplotypes maternalHaplotypes error i j k
         = Inr (pointEst_value indGeno indPatHap indMatHap paternalHaplotypes maternalHaplotypes
                  error i j k)"
  using assms
  by (simp add: pointEst_cell_def pointEst_value_def and_also_def not_missing_def bind_err_def
      get_Inr get2_Inr [of nPat nLoci] get2_Inr [of nMat nLoci])

lemma getDiploidPointEstimates_Inr:
  assumes "is_grid nPat nLoci paternalHaplotypes" "is_grid nMat nLoci maternalHaplotypes"
    and "length indGeno = nLoci" "length indPatHap = nLoci" "length indMatHap = nLoci"
    and "length error = nLoci" "0 < nMat"
  shows "getDiploidPointEstimates indGeno indPatHap indMatHap paternalHaplotypes
           maternalHaplotypes error
         = Inr (map (\<lambda>i. map (\<lambda>j. map (\<lambda>k.
              pointEst_value indGeno indPatHap indMatHap paternalHaplotypes maternalHaplotypes
                error i j k) [0..<nMat]) [0..<nPat]) [0..<nLoci])"
proof -
  have shape: "n_rows paternalHaplotypes = nPat" "n_rows maternalHaplotypes = nMat"
    "n_cols maternalHaplotypes = nLoci"
    using assms by (simp_all add: is_grid_n_rows is_grid_n_cols)
  have locus: "bind_err (not_missing indGeno i) (\<lambda>observed.
            if observed
            then sequence_err (map (\<lambda>j.
                   sequence_err (map (\<lambda>k.
                     pointEst_cell indGeno indPatHap indMatHap paternalHaplotypes
                       maternalHaplotypes error i j k)
                   [0..<nMat]))
                 [0..<nPat])
            else Inr (replicate nPat (replicate nMat 1)))
        = Inr (map (\<lambda>j. map (\<lambda>k.
              pointEst_value indGeno indPatHap indMatHap paternalHaplotypes maternalHaplotypes
                error i j k) [0..<nMat]) [0..<nPat])"
    if i: "i \<in> set [0..<nLoci]" for i
  proof (cases "indGeno ! i = 9")
    case True
    have "replicate nPat (replicate nMat (1::real))
          = map (\<lambda>j. map (\<lambda>k. 1) [0..<nMat]) [0..<nPat]"
      by (simp add: map_replicate_const)
    with True i assms show ?thesis
      by (simp add: not_missing_def bind_err_def get_Inr pointEst_value_def)
  next
    case False
    have rows: "sequence_err (map (\<lambda>j.
                   sequence_err (map (\<lambda>k.
                     pointEst_cell indGeno indPatHap indMatHap paternalHaplotypes
                       maternalHaplotypes error i j k)
                   [0..<nMat]))
                 [0..<nPat])
          = Inr (map (\<lambda>j. map (\<lambda>k.
              pointEst_value indGeno indPatHap indMatHap paternalHaplotypes maternalHaplotypes
                error i j k) [0..<nMat]) [0..<nPat])"
      using assms i False
      by (intro sequence_err_map_Inr) (simp add: pointEst_cell_Inr [of nPat nLoci _ nMat])
    with False i assms show ?thesis
      by (simp add: not_missing_def bind_err_def get_Inr)
  qed
  show ?thesis
    unfolding getDiploidPointEstimates_def Let_def shape
    by (rule sequence_err_map_Inr) (rule locus)
qed


text \<open>
  C7 (unphased branch). At a locus whose genotype is observed and where at least one of the two
  phased allele observations is 9, every hypothesis pair gets \<open>1 - error\<^sup>2\<close> when the sum of
  its two alleles equals the observed genotype, and \<open>error\<^sup>2\<close> otherwise.
\<close>

theorem unphased_emission_weight:
  assumes "is_grid nPat nLoci paternalHaplotypes" "is_grid nMat nLoci maternalHaplotypes"
    and "length indGeno = nLoci" "length indPatHap = nLoci" "length indMatHap = nLoci"
    and "length error = nLoci"
    and "i < nLoci" "j < nPat" "k < nMat"
    and "indGeno ! i \<noteq> 9" "indPatHap ! i = 9 \<or> indMatHap ! i = 9"
  shows "\<exists>pointEst.
           getDiploidPointEstimates indGeno indPatHap indMatHap paternalHaplotypes
             maternalHaplotypes error = Inr pointEst
           \<and> pointEst ! i ! j ! k =
               (if paternalHaplotypes ! j ! i + maternalHaplotypes ! k ! i = indGeno ! i
                then 1 - (error ! i)\<^sup>2 else (error ! i)\<^sup>2)"
proof -
  from assms have "0 < nMat" by simp
  from getDiploidPointEstimates_Inr [OF assms(1-6) this] assms(7-11) show ?thesis
    by (auto simp: pointEst_value_def unphased_value_def power2_eq_square)
qed

theorem unphased_emission_weight_witness:
  "\<exists>pointEst.
     getDiploidPointEstimates [1, 2] [9, 0] [0, 9] [[0, 1], [1, 1]] [[1, 0]] [1/10, 1/5]
       = Inr pointEst
     \<and> pointEst ! 0 ! 1 ! 0 = (1/10)\<^sup>2
     \<and> getDiploidPointEstimates [1, 2] [9, 0] [0, 9] [[0, 1], [1, 1]] [[1, 0]] [1/10, 1/5]
       = Inr [[[99/100], [1/100]], [[1/25], [1/25]]]"
proof -
  have run: "getDiploidPointEstimates [1, 2] [9, 0] [0, 9] [[0, 1], [1, 1]] [[1, 0]] [1/10, 1/5]
       = Inr [[[99/100], [1/100]], [[1/25], [1/25]]]"
    by code_simp
  have "is_grid 2 2 [[0, 1], [1, 1::int]]" "is_grid 1 2 [[1, 0::int]]"
    by (simp_all add: is_grid_def)
  from unphased_emission_weight [OF this, of "[1, 2]" "[9, 0]" "[0, 9]" "[1/10, 1/5]" 0 1 0]
  show ?thesis using run by simp
qed


text \<open>
  C9 (missing genotype). At a locus whose genotype is 9 every hypothesis pair keeps the
  weight 1, whatever the phased allele observations are.
\<close>

theorem missing_genotype_emission_weight:
  assumes "is_grid nPat nLoci paternalHaplotypes" "is_grid nMat nLoci maternalHaplotypes"
    and "length indGeno = nLoci" "length indPatHap = nLoci" "length indMatHap = nLoci"
    and "length error = nLoci"
    and "i < nLoci" "j < nPat" "k < nMat"
    and "indGeno ! i = 9"
  shows "\<exists>pointEst.
           getDiploidPointEstimates indGeno indPatHap indMatHap paternalHaplotypes
             maternalHaplotypes error = Inr pointEst
           \<and> pointEst ! i ! j ! k = 1"
proof -
  from assms have "0 < nMat" by simp
  from getDiploidPointEstimates_Inr [OF assms(1-6) this] assms(7-10) show ?thesis
    by (auto simp: pointEst_value_def)
qed

theorem missing_genotype_emission_weight_witness:
  "\<exists>pointEst.
     getDiploidPointEstimates [9, 0] [1, 0] [0, 0] [[0, 1], [1, 1]] [[1, 0]] [1/10, 1/5]
       = Inr pointEst
     \<and> pointEst ! 0 ! 0 ! 0 = 1
     \<and> getDiploidPointEstimates [9, 0] [1, 0] [0, 0] [[0, 1], [1, 1]] [[1, 0]] [1/10, 1/5]
       = Inr [[[1], [1]], [[4/25], [4/25]]]"
proof -
  have run: "getDiploidPointEstimates [9, 0] [1, 0] [0, 0] [[0, 1], [1, 1]] [[1, 0]] [1/10, 1/5]
       = Inr [[[1], [1]], [[4/25], [4/25]]]"
    by code_simp
  have "is_grid 2 2 [[0, 1], [1, 1::int]]" "is_grid 1 2 [[1, 0::int]]"
    by (simp_all add: is_grid_def)
  from missing_genotype_emission_weight
         [OF this, of "[9, 0]" "[1, 0]" "[0, 0]" "[1/10, 1/5]" 0 0 0]
  show ?thesis using run by simp
qed

subsection \<open>Dosages\<close>

lemma sum_list_product:
  "(\<Sum>jk\<leftarrow>List.product xs ys. f jk) = (\<Sum>j\<leftarrow>xs. \<Sum>k\<leftarrow>ys. f (j, k))"
  by (induction xs) (simp_all add: comp_def)

lemma sum_list_nth_upt: "length xs = n \<Longrightarrow> sum_list xs = (\<Sum>k\<leftarrow>[0..<n]. xs ! k)"
  using map_nth [of xs] by simp

lemma np_sum2_nth:
  assumes "is_grid n m a"
  shows "np_sum2 a = (\<Sum>j\<leftarrow>[0..<n]. \<Sum>k\<leftarrow>[0..<m]. a ! j ! k)"
proof -
  have "map sum_list a = map (\<lambda>j. \<Sum>k\<leftarrow>[0..<m]. a ! j ! k) [0..<n]"
  proof (rule nth_equalityI)
    show "length (map sum_list a) = length (map (\<lambda>j. \<Sum>k\<leftarrow>[0..<m]. a ! j ! k) [0..<n])"
      using assms by (simp add: is_grid_def)
  next
    fix j assume "j < length (map sum_list a)"
    then have j: "j < n" using assms by (simp add: is_grid_def)
    with assms have "length (a ! j) = m" by (simp add: is_grid_def list_all_length)
    from sum_list_nth_upt [OF this] j assms
    show "map sum_list a ! j = map (\<lambda>j. \<Sum>k\<leftarrow>[0..<m]. a ! j ! k) [0..<n] ! j"
      by (simp add: is_grid_def)
  qed
  then show ?thesis by (simp only: np_sum2_def)
qed

lemma np_sum2_product:
  "is_grid n m a \<Longrightarrow> np_sum2 a = (\<Sum>jk\<leftarrow>List.product [0..<n] [0..<m]. a ! fst jk ! snd jk)"
  by (simp only: np_sum2_nth sum_list_product fst_conv snd_conv)

lemma dosage_term_Inr:
  assumes "is_tensor nLoci nPat nMat hapEst"
    and "is_grid nPat nLoci paternalHaplotypes" "is_grid nMat nLoci maternalHaplotypes"
    and "i < nLoci" "jk \<in> set (List.product [0..<nPat] [0..<nMat])"
  shows "dosage_term hapEst paternalHaplotypes maternalHaplotypes i jk
         = Inr (hapEst ! i ! fst jk ! snd jk
                * real_of_int (paternalHaplotypes ! fst jk ! i + maternalHaplotypes ! snd jk ! i))"
  using assms
  by (cases jk)
     (simp add: dosage_term_def bind_err_def get3_Inr [of nLoci nPat nMat]
        get2_Inr [of nPat nLoci] get2_Inr [of nMat nLoci])

lemma getDiploidDosages_Inr:
  assumes "is_tensor nLoci nPat nMat hapEst"
    and "is_grid nPat nLoci paternalHaplotypes" "is_grid nMat nLoci maternalHaplotypes"
    and "n_cols maternalHaplotypes = nLoci"
  shows "getDiploidDosages hapEst paternalHaplotypes maternalHaplotypes
         = Inr (map (dosage_value hapEst paternalHaplotypes maternalHaplotypes nPat nMat)
                  [0..<nLoci])"
proof -
  have shape: "n_rows paternalHaplotypes = nPat" "n_rows maternalHaplotypes = nMat"
    using assms by (simp_all add: is_grid_n_rows)
  have locus: "bind_err
            (sequence_err (map (dosage_term hapEst paternalHaplotypes maternalHaplotypes i)
               (List.product [0..<nPat] [0..<nMat])))
            (\<lambda>terms. Inr (sum_list terms))
          = Inr (dosage_value hapEst paternalHaplotypes maternalHaplotypes nPat nMat i)"
    if "i \<in> set [0..<nLoci]" for i
  proof -
    from that have i: "i < nLoci" by simp
    have "sequence_err (map (dosage_term hapEst paternalHaplotypes maternalHaplotypes i)
               (List.product [0..<nPat] [0..<nMat]))
          = Inr (map (\<lambda>jk. hapEst ! i ! fst jk ! snd jk
                * real_of_int (paternalHaplotypes ! fst jk ! i + maternalHaplotypes ! snd jk ! i))
               (List.product [0..<nPat] [0..<nMat]))"
      by (rule sequence_err_map_Inr) (rule dosage_term_Inr [OF assms(1-3) i])
    then show ?thesis
      by (simp add: bind_err_def dosage_value_def)
  qed
  show ?thesis
    unfolding getDiploidDosages_def Let_def shape assms(4)
    by (rule sequence_err_map_Inr) (rule locus)
qed

lemma dosage_value_bounds:
  assumes grid: "is_grid nPat nMat slice"
    and nonneg: "list_all (list_all (\<lambda>x. 0 \<le> x)) slice"
    and total: "np_sum2 slice = 1"
    and alleles: "\<And>j k. j < nPat \<Longrightarrow> k < nMat \<Longrightarrow> 0 \<le> c j k \<and> c j k \<le> (2::real)"
  shows "0 \<le> (\<Sum>jk\<leftarrow>List.product [0..<nPat] [0..<nMat]. slice ! fst jk ! snd jk * c (fst jk) (snd jk))
       \<and> (\<Sum>jk\<leftarrow>List.product [0..<nPat] [0..<nMat]. slice ! fst jk ! snd jk * c (fst jk) (snd jk)) \<le> 2"
proof -
  let ?idx = "List.product [0..<nPat] [0..<nMat]"
  have cell: "0 \<le> slice ! fst jk ! snd jk" if "jk \<in> set ?idx" for jk
    using that grid nonneg by (auto simp: is_grid_def list_all_length)
  have lower: "0 \<le> (\<Sum>jk\<leftarrow>?idx. slice ! fst jk ! snd jk * c (fst jk) (snd jk))"
    by (rule sum_list_nonneg) (use cell alleles in auto)
  have "(\<Sum>jk\<leftarrow>?idx. slice ! fst jk ! snd jk * c (fst jk) (snd jk))
        \<le> (\<Sum>jk\<leftarrow>?idx. slice ! fst jk ! snd jk * 2)"
  proof (rule sum_list_mono)
    fix jk assume "jk \<in> set ?idx"
    then show "slice ! fst jk ! snd jk * c (fst jk) (snd jk) \<le> slice ! fst jk ! snd jk * 2"
      using cell [of jk] alleles [of "fst jk" "snd jk"] by (auto intro: mult_left_mono)
  qed
  also have "\<dots> = (\<Sum>jk\<leftarrow>?idx. slice ! fst jk ! snd jk) * 2"
    by (simp add: sum_list_mult_const)
  also have "(\<Sum>jk\<leftarrow>?idx. slice ! fst jk ! snd jk) = np_sum2 slice"
    by (simp only: np_sum2_product [OF grid])
  finally show ?thesis using lower total by simp
qed

text \<open>
  C8 (dosage bounds). For a posterior whose slices are non-negative and sum to 1, and libraries
  whose alleles are 0 or 1, \<^verbatim>\<open>getDiploidDosages\<close> returns one dosage per locus and every
  dosage lies between 0 and 2.
\<close>

theorem dosages_between_0_and_2:
  assumes "is_tensor nLoci nPat nMat hapEst"
    and "is_grid nPat nLoci paternalHaplotypes" "is_grid nMat nLoci maternalHaplotypes"
    and "list_all (list_all (list_all (\<lambda>x. 0 \<le> x))) hapEst"
    and "list_all (\<lambda>slice. np_sum2 slice = 1) hapEst"
    and "list_all (list_all (\<lambda>a. a = 0 \<or> a = 1)) paternalHaplotypes"
    and "list_all (list_all (\<lambda>a. a = 0 \<or> a = 1)) maternalHaplotypes"
  shows "\<exists>dosages.
           getDiploidDosages hapEst paternalHaplotypes maternalHaplotypes = Inr dosages
           \<and> length dosages = nLoci
           \<and> list_all (\<lambda>d. 0 \<le> d \<and> d \<le> 2) dosages"
proof -
  have loci: "n_cols maternalHaplotypes = nLoci"
  proof (cases "nMat = 0")
    case False
    with assms(3) show ?thesis by (simp add: is_grid_n_cols)
  next
    case True
    have "nLoci = 0"
    proof (rule ccontr)
      assume "nLoci \<noteq> 0"
      then have "0 < nLoci" by simp
      with assms(1,5) have g: "is_grid nPat nMat (hapEst ! 0)" and s: "np_sum2 (hapEst ! 0) = 1"
        by (simp_all add: is_tensor_def list_all_length)
      from g True have "np_sum2 (hapEst ! 0) = 0"
        by (simp add: np_sum2_nth)
      with s show False by simp
    qed
    with True assms(3) show ?thesis by (simp add: is_grid_def n_cols_def)
  qed
  have run: "getDiploidDosages hapEst paternalHaplotypes maternalHaplotypes
         = Inr (map (dosage_value hapEst paternalHaplotypes maternalHaplotypes nPat nMat)
                  [0..<nLoci])"
    by (rule getDiploidDosages_Inr [OF assms(1-3) loci])
  have bound: "0 \<le> dosage_value hapEst paternalHaplotypes maternalHaplotypes nPat nMat i
             \<and> dosage_value hapEst paternalHaplotypes maternalHaplotypes nPat nMat i \<le> 2"
    if i: "i < nLoci" for i
  proof -
    from assms(1,4,5) i have g: "is_grid nPat nMat (hapEst ! i)"
      and n: "list_all (list_all (\<lambda>x. 0 \<le> x)) (hapEst ! i)"
      and s: "np_sum2 (hapEst ! i) = 1"
      by (simp_all add: is_tensor_def list_all_length)
    have a: "0 \<le> real_of_int (paternalHaplotypes ! j ! i + maternalHaplotypes ! k ! i)
           \<and> real_of_int (paternalHaplotypes ! j ! i + maternalHaplotypes ! k ! i) \<le> 2"
      if "j < nPat" "k < nMat" for j k
    proof -
      from assms(2,6) that i have "paternalHaplotypes ! j ! i = 0 \<or> paternalHaplotypes ! j ! i = 1"
        by (simp add: is_grid_def list_all_length)
      moreover from assms(3,7) that i
      have "maternalHaplotypes ! k ! i = 0 \<or> maternalHaplotypes ! k ! i = 1"
        by (simp add: is_grid_def list_all_length)
      ultimately show ?thesis by auto
    qed
    from dosage_value_bounds [OF g n s, of "\<lambda>j k. real_of_int (paternalHaplotypes ! j ! i + maternalHaplotypes ! k ! i)"] a
    show ?thesis by (simp add: dosage_value_def)
  qed
  show ?thesis
    using run bound by (simp add: list_all_length)
qed

theorem dosages_between_0_and_2_witness:
  "\<exists>dosages.
     getDiploidDosages [[[5/16, 19/80], [19/80, 17/80]], [[2/5, 1/5], [1/5, 1/5]]]
       [[0, 0], [1, 1]] [[0, 1], [1, 1]] = Inr dosages
     \<and> length dosages = 2
     \<and> list_all (\<lambda>d. 0 \<le> d \<and> d \<le> 2) dosages
     \<and> dosages = [9/10, 7/5]"
proof -
  have run: "getDiploidDosages [[[5/16, 19/80], [19/80, 17/80]], [[2/5, 1/5], [1/5, 1/5]]]
       [[0, 0], [1, 1]] [[0, 1], [1, 1]] = Inr [9/10, 7/5]"
    by code_simp
  have "is_tensor 2 2 2 [[[5/16, 19/80], [19/80, 17/80]], [[2/5, 1/5], [1/5, 1/5::real]]]"
    "is_grid 2 2 [[0, 0], [1, 1::int]]" "is_grid 2 2 [[0, 1], [1, 1::int]]"
    "list_all (list_all (list_all (\<lambda>x. 0 \<le> x)))
       [[[5/16, 19/80], [19/80, 17/80]], [[2/5, 1/5], [1/5, 1/5::real]]]"
    "list_all (\<lambda>slice. np_sum2 slice = 1)
       [[[5/16, 19/80], [19/80, 17/80]], [[2/5, 1/5], [1/5, 1/5]]]"
    "list_all (list_all (\<lambda>a. a = 0 \<or> a = 1)) [[0, 0], [1, 1::int]]"
    "list_all (list_all (\<lambda>a. a = 0 \<or> a = 1)) [[0, 1], [1, 1::int]]"
    by (simp_all add: is_tensor_def is_grid_def np_sum2_def)
  from dosages_between_0_and_2 [OF this] show ?thesis
    using run by simp
qed

subsection \<open>The sampler's corrective kernel\<close>

text \<open>
  The two loops of \<^verbatim>\<open>combine_backward_sampled_value\<close> add to one row and to one column of
  \<^verbatim>\<open>output\<close>; the lemmas below follow the array through them.
\<close>

lemma is_grid_grid_of: "is_grid n m (grid_of n m f)"
  by (simp add: is_grid_def grid_of_def list_all_length)

lemma grid_of_nth: "j < n \<Longrightarrow> k < m \<Longrightarrow> grid_of n m f ! j ! k = f j k"
  by (simp add: grid_of_def)

lemma grid_of_replicate: "replicate n (replicate m c) = grid_of n m (\<lambda>j k. c)"
  by (simp add: grid_of_def map_replicate_const)

lemma grid_eqI:
  assumes "is_grid n m a" "is_grid n m b"
    and "\<And>j k. j < n \<Longrightarrow> k < m \<Longrightarrow> a ! j ! k = b ! j ! k"
  shows "a = b"
proof (rule nth_equalityI)
  show "length a = length b" using assms by (simp add: is_grid_def)
next
  fix j assume "j < length a"
  then have j: "j < n" using assms by (simp add: is_grid_def)
  show "a ! j = b ! j"
  proof (rule nth_equalityI)
    show "length (a ! j) = length (b ! j)"
      using assms(1,2) j by (simp add: is_grid_nth)
  next
    fix k assume "k < length (a ! j)"
    then have "k < m" using assms(1) j by (simp add: is_grid_nth)
    with j show "a ! j ! k = b ! j ! k" by (rule assms(3))
  qed
qed

lemma add_at_grid_of:
  assumes "p < n" "q < m"
  shows "add_at (grid_of n m f) p q v
         = Inr (grid_of n m (\<lambda>j k. f j k + (if j = p \<and> k = q then v else 0)))"
proof -
  let ?a = "grid_of n m f"
  let ?b = "?a[p := (?a ! p)[q := ?a ! p ! q + v]]"
  have len: "p < length ?a" "q < length (?a ! p)"
    using assms by (simp_all add: grid_of_def)
  have grid: "is_grid n m ?b"
    using assms by (auto simp: is_grid_def grid_of_def list_all_length nth_list_update)
  have "?b = grid_of n m (\<lambda>j k. f j k + (if j = p \<and> k = q then v else 0))"
  proof (rule grid_eqI [OF grid is_grid_grid_of])
    fix j k assume "j < n" "k < m"
    then show "?b ! j ! k = grid_of n m (\<lambda>j k. f j k + (if j = p \<and> k = q then v else 0)) ! j ! k"
      using assms by (simp add: grid_of_def nth_list_update)
  qed
  with len show ?thesis by (simp add: add_at_def)
qed

lemma fold_err_snoc:
  "fold_err f (xs @ [x]) s = (case fold_err f xs s of Inl e \<Rightarrow> Inl e | Inr s' \<Rightarrow> f x s')"
  by (induction xs arbitrary: s) (auto split: sum.splits)

lemma add_row_loop:
  assumes "p < n" "m' \<le> m"
  shows "fold_err (\<lambda>k out. add_at out p k v) [0..<m'] (grid_of n m f)
         = Inr (grid_of n m (\<lambda>j k. f j k + (if j = p \<and> k < m' then v else 0)))"
  using assms(2)
proof (induction m')
  case 0
  then show ?case by simp
next
  case (Suc m')
  then have q: "m' < m" and IH: "fold_err (\<lambda>k out. add_at out p k v) [0..<m'] (grid_of n m f)
         = Inr (grid_of n m (\<lambda>j k. f j k + (if j = p \<and> k < m' then v else 0)))"
    by simp_all
  have "grid_of n m (\<lambda>j k. f j k + (if j = p \<and> k < m' then v else 0)
                              + (if j = p \<and> k = m' then v else 0))
        = grid_of n m (\<lambda>j k. f j k + (if j = p \<and> k < Suc m' then v else 0))"
    by (rule grid_eqI [OF is_grid_grid_of is_grid_grid_of]) (auto simp: grid_of_nth)
  then show ?case
    by (simp add: fold_err_snoc IH add_at_grid_of [OF assms(1) q])
qed

lemma add_column_loop:
  assumes "q < m" "n' \<le> n"
  shows "fold_err (\<lambda>j out. add_at out j q v) [0..<n'] (grid_of n m f)
         = Inr (grid_of n m (\<lambda>j k. f j k + (if k = q \<and> j < n' then v else 0)))"
  using assms(2)
proof (induction n')
  case 0
  then show ?case by simp
next
  case (Suc n')
  then have p: "n' < n" and IH: "fold_err (\<lambda>j out. add_at out j q v) [0..<n'] (grid_of n m f)
         = Inr (grid_of n m (\<lambda>j k. f j k + (if k = q \<and> j < n' then v else 0)))"
    by simp_all
  have "grid_of n m (\<lambda>j k. f j k + (if k = q \<and> j < n' then v else 0)
                              + (if j = n' \<and> k = q then v else 0))
        = grid_of n m (\<lambda>j k. f j k + (if k = q \<and> j < Suc n' then v else 0))"
    by (rule grid_eqI [OF is_grid_grid_of is_grid_grid_of]) (auto simp: grid_of_nth)
  then show ?case
    by (simp add: fold_err_snoc IH add_at_grid_of [OF p assms(1)])
qed

lemma backward_kernel_Inr:
  assumes "pat_hap < n_pat" "mat_hap < n_mat"
  shows "backward_kernel n_pat n_mat pat_hap mat_hap e
         = Inr (grid_of n_pat n_mat (kernel_value n_pat n_mat pat_hap mat_hap e))"
proof -
  have "grid_of n_pat n_mat
          (\<lambda>j k. e * e / real (n_mat * n_pat)
                + (if j = pat_hap \<and> k < n_mat then (1 - e) * e / real n_mat else 0)
                + (if k = mat_hap \<and> j < n_pat then (1 - e) * e / real n_pat else 0)
                + (if j = pat_hap \<and> k = mat_hap then (1 - e)\<^sup>2 else 0))
        = grid_of n_pat n_mat (kernel_value n_pat n_mat pat_hap mat_hap e)"
    by (rule grid_eqI [OF is_grid_grid_of is_grid_grid_of])
       (simp add: grid_of_nth kernel_value_def power2_eq_square mult.commute)
  with assms show ?thesis
    by (simp add: backward_kernel_def Let_def bind_err_def grid_of_replicate
        add_row_loop add_column_loop add_at_grid_of)
qed

lemma sum_list_indicator:
  "(\<Sum>k\<leftarrow>[0..<m]. if k = q then v else (0::real)) = (if q < m then v else 0)"
  by (induction m) auto

lemma sum_list_const_upt: "(\<Sum>k\<leftarrow>[0..<m]. (c::real)) = real m * c"
  by (induction m) (simp_all add: algebra_simps)

lemma np_sum2_grid_of: "np_sum2 (grid_of n m f) = (\<Sum>j\<leftarrow>[0..<n]. \<Sum>k\<leftarrow>[0..<m]. f j k)"
  by (simp add: np_sum2_def grid_of_def comp_def)

lemma kernel_row_sum:
  assumes "mat_hap < n_mat"
  shows "(\<Sum>k\<leftarrow>[0..<n_mat]. kernel_value n_pat n_mat pat_hap mat_hap e j k)
         = (if j = pat_hap then (1 - e)\<^sup>2 + (1 - e) * e else 0)
           + ((1 - e) * e / real n_pat + e\<^sup>2 / real n_pat)"
proof -
  have pos: "real n_mat \<noteq> 0" using assms by simp
  have "(\<Sum>k\<leftarrow>[0..<n_mat]. kernel_value n_pat n_mat pat_hap mat_hap e j k)
        = (\<Sum>k\<leftarrow>[0..<n_mat]. if k = mat_hap then (if j = pat_hap then (1 - e)\<^sup>2 else 0) else 0)
          + (\<Sum>k\<leftarrow>[0..<n_mat]. (if j = pat_hap then (1 - e) * e / real n_mat else 0))
          + (\<Sum>k\<leftarrow>[0..<n_mat]. if k = mat_hap then (1 - e) * e / real n_pat else 0)
          + (\<Sum>k\<leftarrow>[0..<n_mat]. e\<^sup>2 / real (n_pat * n_mat))"
    unfolding kernel_value_def sum_list_addf [symmetric]
    by (rule arg_cong [where f = sum_list], rule map_cong) auto
  also have "\<dots> = (if j = pat_hap then (1 - e)\<^sup>2 else 0)
          + real n_mat * (if j = pat_hap then (1 - e) * e / real n_mat else 0)
          + (1 - e) * e / real n_pat
          + real n_mat * (e\<^sup>2 / real (n_pat * n_mat))"
    using assms by (simp only: sum_list_indicator sum_list_const_upt if_True)
  also have "\<dots> = (if j = pat_hap then (1 - e)\<^sup>2 + (1 - e) * e else 0)
           + ((1 - e) * e / real n_pat + e\<^sup>2 / real n_pat)"
    using pos by simp
  finally show ?thesis .
qed

lemma kernel_total:
  assumes "pat_hap < n_pat" "mat_hap < n_mat"
  shows "(\<Sum>j\<leftarrow>[0..<n_pat]. \<Sum>k\<leftarrow>[0..<n_mat]. kernel_value n_pat n_mat pat_hap mat_hap e j k) = 1"
proof -
  have pos: "real n_pat \<noteq> 0" using assms by simp
  have "(\<Sum>j\<leftarrow>[0..<n_pat]. \<Sum>k\<leftarrow>[0..<n_mat]. kernel_value n_pat n_mat pat_hap mat_hap e j k)
        = (\<Sum>j\<leftarrow>[0..<n_pat]. (if j = pat_hap then (1 - e)\<^sup>2 + (1 - e) * e else 0)
             + ((1 - e) * e / real n_pat + e\<^sup>2 / real n_pat))"
    by (simp only: kernel_row_sum [OF assms(2)])
  also have "\<dots> = (\<Sum>j\<leftarrow>[0..<n_pat]. if j = pat_hap then (1 - e)\<^sup>2 + (1 - e) * e else 0)
             + (\<Sum>j\<leftarrow>[0..<n_pat]. (1 - e) * e / real n_pat + e\<^sup>2 / real n_pat)"
    by (simp only: sum_list_addf)
  also have "\<dots> = ((1 - e)\<^sup>2 + (1 - e) * e)
             + real n_pat * ((1 - e) * e / real n_pat + e\<^sup>2 / real n_pat)"
    using assms by (simp only: sum_list_indicator sum_list_const_upt if_True)
  also have "\<dots> = 1"
    using pos by (simp add: field_simps power2_eq_square)
  finally show ?thesis .
qed


text \<open>
  C10 (the additive kernel is a probability distribution). For every recombination rate, every
  grid and every sampled pair inside the grid, the array that
  \<^verbatim>\<open>combine_backward_sampled_value\<close> has built before it multiplies by the previous estimate
  sums to 1.
\<close>

theorem backward_kernel_sums_to_one:
  assumes "pat_hap < n_pat" "mat_hap < n_mat"
  shows "\<exists>kernel. backward_kernel n_pat n_mat pat_hap mat_hap e = Inr kernel
           \<and> is_grid n_pat n_mat kernel \<and> np_sum2 kernel = 1"
  using assms
  by (simp add: backward_kernel_Inr is_grid_grid_of np_sum2_grid_of kernel_total)

theorem backward_kernel_sums_to_one_witness:
  "\<exists>kernel. backward_kernel 2 3 1 2 (1/4) = Inr kernel
     \<and> is_grid 2 3 kernel \<and> np_sum2 kernel = 1
     \<and> kernel = [[1/96, 1/96, 5/48], [7/96, 7/96, 35/48]]"
proof -
  have run: "backward_kernel 2 3 1 2 (1/4) = Inr [[1/96, 1/96, 5/48], [7/96, 7/96, 35/48]]"
    by code_simp
  have "(1::nat) < 2" "(2::nat) < 3" by simp_all
  from backward_kernel_sums_to_one [OF this, of "1/4"] show ?thesis
    using run by simp
qed

lemma mult_grid_nth:
  assumes "is_grid n m a" "is_grid n m b" "j < n" "k < m"
  shows "mult_grid a b ! j ! k = a ! j ! k * b ! j ! k"
  using assms by (simp add: mult_grid_def is_grid_def list_all_length)

lemma is_grid_mult_grid:
  assumes "is_grid n m a" "is_grid n m b"
  shows "is_grid n m (mult_grid a b)"
  using assms by (simp add: mult_grid_def is_grid_def list_all_length)

lemma combine_backward_sampled_value_Inr:
  assumes "is_grid n_pat n_mat previous_estimate" "pat_hap < n_pat" "mat_hap < n_mat"
  shows "combine_backward_sampled_value previous_estimate pat_hap mat_hap e
         = Inr (mult_grid (grid_of n_pat n_mat (kernel_value n_pat n_mat pat_hap mat_hap e))
                  previous_estimate)"
proof -
  from assms have "n_rows previous_estimate = n_pat" "n_cols previous_estimate = n_mat"
    by (simp_all add: is_grid_n_rows is_grid_n_cols)
  with assms show ?thesis
    by (simp add: combine_backward_sampled_value_def bind_err_def backward_kernel_Inr)
qed


text \<open>
  C6 (the sampling weights before the last locus). At a locus \<open>i\<close> before the last, with the
  pair \<open>(pat_hap, mat_hap)\<close> stored for locus \<open>i + 1\<close> by the preceding iteration and
  \<open>e = recombination_rate[i + 1]\<close>, the weights handed to the sampler are the forward-combined
  slice of locus \<open>i\<close> multiplied cell by cell by the four-term kernel.
\<close>

theorem sampling_weights_before_last_locus:
  assumes "is_tensor n_loci n_pat n_mat forward_probs"
    and "i + 1 < n_loci" "i + 1 < length recombination_rate"
    and "i + 1 < length paternal_indices" "i + 1 < length maternal_indices"
    and "paternal_indices ! (i + 1) = pat_hap" "maternal_indices ! (i + 1) = mat_hap"
    and "recombination_rate ! (i + 1) = e"
    and "pat_hap < n_pat" "mat_hap < n_mat" "j < n_pat" "k < n_mat"
  shows "\<exists>pvals.
           sampling_weights forward_probs recombination_rate paternal_indices maternal_indices i
             = Inr pvals
           \<and> is_grid n_pat n_mat pvals
           \<and> pvals ! j ! k =
               ((if j = pat_hap \<and> k = mat_hap then (1 - e)\<^sup>2 else 0)
                + (if j = pat_hap then (1 - e) * e / real n_mat else 0)
                + (if k = mat_hap then (1 - e) * e / real n_pat else 0)
                + e\<^sup>2 / real (n_pat * n_mat))
               * forward_probs ! i ! j ! k"
proof -
  from assms(1,2) have len: "length forward_probs = n_loci"
    and slice: "is_grid n_pat n_mat (forward_probs ! i)"
    by (simp_all add: is_tensor_def list_all_length)
  from assms(2) len have not_last: "i \<noteq> length forward_probs - 1" by simp
  let ?kernel = "grid_of n_pat n_mat (kernel_value n_pat n_mat pat_hap mat_hap e)"
  have run: "sampling_weights forward_probs recombination_rate paternal_indices maternal_indices i
        = Inr (mult_grid ?kernel (forward_probs ! i))"
    using assms(3-8) not_last
    by (simp add: sampling_weights_def Let_def bind_err_def get_Inr
        combine_backward_sampled_value_Inr [OF slice assms(9,10)])
  have cell: "mult_grid ?kernel (forward_probs ! i) ! j ! k
        = kernel_value n_pat n_mat pat_hap mat_hap e j k * forward_probs ! i ! j ! k"
    using assms(11,12)
    by (simp add: mult_grid_nth [OF is_grid_grid_of slice] grid_of_nth)
  show ?thesis
    using run cell is_grid_mult_grid [OF is_grid_grid_of slice]
    by (simp add: kernel_value_def)
qed

theorem sampling_weights_before_last_locus_witness:
  "\<exists>pvals.
     sampling_weights [[[1/2, 1/4, 1/4]], [[1/3, 1/3, 1/3]]] [1/10, 1/4] [0, 0] [0, 2] 0
       = Inr pvals
     \<and> is_grid 1 3 pvals
     \<and> pvals ! 0 ! 2 = ((1 - 1/4)\<^sup>2 + (1 - 1/4) * (1/4) / 3 + (1 - 1/4) * (1/4) / 1
                        + (1/4)\<^sup>2 / 3) * (1/4)
     \<and> pvals = [[1/24, 1/48, 5/24]]"
proof -
  have run: "sampling_weights [[[1/2, 1/4, 1/4]], [[1/3, 1/3, 1/3]]] [1/10, 1/4] [0, 0] [0, 2] 0
       = Inr [[1/24, 1/48, 5/24]]"
    by code_simp
  have "is_tensor 2 1 3 [[[1/2, 1/4, 1/4]], [[1/3, 1/3, 1/3::real]]]"
    by (simp add: is_tensor_def is_grid_def)
  from sampling_weights_before_last_locus
         [OF this, of 0 "[1/10, 1/4]" "[0, 0]" "[0, 2]" 0 2 "1/4" 0 2]
  show ?thesis using run by (simp add: power2_eq_square)
qed

subsection \<open>More on the forward and the backward pass\<close>

text \<open>
  The slice of locus 0 that \<^verbatim>\<open>diploid_forward\<close> returns, in general: the emission slice
  divided by the sum of the whole emission tensor. The loop never writes locus 0.
\<close>

lemma forward_loop_keeps_first:
  "forward_loop point_estimate recombination_rate in_place loci combined = Inr result
   \<Longrightarrow> 0 \<notin> set loci \<Longrightarrow> result ! 0 = combined ! 0"
  by (induction point_estimate recombination_rate in_place loci combined
        rule: forward_loop.induct)
     (auto split: sum.splits simp: Let_def)

lemma diploid_forward_first_slice:
  assumes "diploid_forward point_estimate recombination_rate in_place = Inr combined"
  shows "combined ! 0 = map (map (\<lambda>x. x / np_sum3 point_estimate)) (point_estimate ! 0)"
proof -
  from assms obtain first where
    len: "point_estimate \<noteq> []"
    and d: "divide_grid (point_estimate ! 0) (np_sum3 point_estimate) = Inr first"
    and l: "forward_loop point_estimate recombination_rate in_place [1..<length point_estimate]
              (point_estimate[0 := first]) = Inr combined"
    by (auto simp: diploid_forward_def Let_def split: if_splits sum.splits)
  from forward_loop_keeps_first [OF l] len have "combined ! 0 = first" by simp
  with d show ?thesis by (auto simp: divide_grid_def split: if_splits)
qed

text \<open>
  When every emission weight is positive, the grid is not empty, there is at least one locus
  and the recombination rates lie in \<open>[0, 1]\<close>, every slice met along the way is positive: no
  normalizing sum is 0 and \<^verbatim>\<open>diploidForwardBackward\<close> returns.
\<close>

lemma pos_grid_nth: "pos_grid n m a \<Longrightarrow> j < n \<Longrightarrow> k < m \<Longrightarrow> 0 < a ! j ! k"
  by (simp add: pos_grid_def is_grid_def list_all_length)

lemma pos_grid_grid_of: "(\<And>j k. j < n \<Longrightarrow> k < m \<Longrightarrow> 0 < f j k) \<Longrightarrow> pos_grid n m (grid_of n m f)"
  by (simp add: pos_grid_def is_grid_grid_of) (simp add: grid_of_def list_all_length)

lemma sum_list_upt_nonneg: "(\<And>k. k < m \<Longrightarrow> 0 \<le> f k) \<Longrightarrow> 0 \<le> (\<Sum>k\<leftarrow>[0..<m]. (f k :: real))"
  by (rule sum_list_nonneg) auto

lemma sum_list_upt_pos:
  "0 < m \<Longrightarrow> (\<And>k. k < m \<Longrightarrow> 0 < f k) \<Longrightarrow> 0 < (\<Sum>k\<leftarrow>[0..<m]. (f k :: real))"
proof (induction m)
  case 0
  then show ?case by simp
next
  case (Suc m)
  have "0 \<le> (\<Sum>k\<leftarrow>[0..<m]. f k)"
    by (rule sum_list_upt_nonneg) (use Suc.prems in \<open>simp add: less_imp_le\<close>)
  moreover have "0 < f m" using Suc.prems by simp
  ultimately show ?case by simp
qed

lemma pos_grid_sum:
  assumes "pos_grid n m a" "0 < n" "0 < m"
  shows "0 < np_sum2 a"
proof -
  from assms(1) have g: "is_grid n m a" by (simp add: pos_grid_def)
  have "0 < (\<Sum>j\<leftarrow>[0..<n]. \<Sum>k\<leftarrow>[0..<m]. a ! j ! k)"
    by (intro sum_list_upt_pos assms(2,3)) (rule pos_grid_nth [OF assms(1)])
  then show ?thesis by (simp only: np_sum2_nth [OF g])
qed

lemma transmit_grid_of:
  assumes "is_grid n m a" "0 < n" "0 < m"
  shows "transmit a e = Inr (grid_of n m (\<lambda>j k.
           a ! j ! k * (1 - e)\<^sup>2
             + paternalMarginal a j * ((1 - e) * e / real n)
             + maternalMarginal a k * ((1 - e) * e / real m)
             + e * e / real (m * n)))"
proof -
  from assms have n: "n_rows a = n" and m: "n_cols a = m"
    by (auto simp: is_grid_n_rows is_grid_n_cols)
  show ?thesis
    using assms(2,3)
    by (simp add: transmit_def Let_def n m paternalMarginal_def maternalMarginal_def grid_of_def)
qed

lemma transmit_pos:
  assumes "pos_grid n m a" "0 < n" "0 < m" "0 \<le> e" "e \<le> 1"
  shows "\<exists>out. transmit a e = Inr out \<and> pos_grid n m out"
proof -
  from assms(1) have g: "is_grid n m a" by (simp add: pos_grid_def)
  from g assms(2,3) have n: "n_rows a = n" and m: "n_cols a = m"
    by (auto simp: is_grid_n_rows is_grid_n_cols)
  have cell: "0 < a ! j ! k * (1 - e)\<^sup>2
             + paternalMarginal a j * ((1 - e) * e / real n)
             + maternalMarginal a k * ((1 - e) * e / real m)
             + e * e / real (m * n)" if jk: "j < n" "k < m" for j k
  proof -
    have a: "0 < a ! j ! k" by (rule pos_grid_nth [OF assms(1) jk])
    have pm: "0 \<le> paternalMarginal a j"
      unfolding paternalMarginal_def m
      by (rule sum_list_upt_nonneg) (use pos_grid_nth [OF assms(1) jk(1)] in \<open>simp add: less_imp_le\<close>)
    have mm: "0 \<le> maternalMarginal a k"
      unfolding maternalMarginal_def n
      by (rule sum_list_upt_nonneg) (use pos_grid_nth [OF assms(1) _ jk(2)] in \<open>simp add: less_imp_le\<close>)
    have e1e: "0 \<le> (1 - e) * e" using assms(4,5) by simp
    have t2: "0 \<le> paternalMarginal a j * ((1 - e) * e / real n)"
      using pm e1e by simp
    have t3: "0 \<le> maternalMarginal a k * ((1 - e) * e / real m)"
      using mm e1e by simp
    have t1: "0 \<le> a ! j ! k * (1 - e)\<^sup>2" using a by simp
    have t4: "0 \<le> e * e / real (m * n)" by simp
    have "0 < a ! j ! k * (1 - e)\<^sup>2 + e * e / real (m * n)"
    proof (cases "e = 1")
      case True
      with assms(2,3) show ?thesis by simp
    next
      case False
      then have "0 < a ! j ! k * (1 - e)\<^sup>2" using a by simp
      with t4 show ?thesis by linarith
    qed
    with t2 t3 show ?thesis by linarith
  qed
  have "pos_grid n m (grid_of n m (\<lambda>j k.
           a ! j ! k * (1 - e)\<^sup>2
             + paternalMarginal a j * ((1 - e) * e / real n)
             + maternalMarginal a k * ((1 - e) * e / real m)
             + e * e / real (m * n)))"
    by (rule pos_grid_grid_of) (rule cell)
  then show ?thesis
    by (simp add: transmit_grid_of [OF g assms(2,3)])
qed

lemma mult_grid_pos:
  assumes "pos_grid n m a" "pos_grid n m b"
  shows "pos_grid n m (mult_grid a b)"
  using assms
  by (auto simp: pos_grid_def mult_grid_def is_grid_def list_all_length)

lemma normalize_pos:
  assumes "pos_grid n m a" "0 < n" "0 < m"
  shows "\<exists>b. divide_grid a (np_sum2 a) = Inr b \<and> pos_grid n m b"
  using pos_grid_sum [OF assms] assms(1)
  by (auto simp: divide_grid_def pos_grid_def is_grid_def list_all_length)

lemma pos_tensor_nth: "pos_tensor l n m t \<Longrightarrow> i < l \<Longrightarrow> pos_grid n m (t ! i)"
  by (simp add: pos_tensor_def list_all_length)

lemma pos_tensor_update:
  "pos_tensor l n m t \<Longrightarrow> pos_grid n m a \<Longrightarrow> pos_tensor l n m (t[i := a])"
  by (cases "i < length t")
     (auto simp: pos_tensor_def list_all_length nth_list_update list_update_beyond)

lemma forward_loop_returns:
  assumes "0 < n" "0 < m"
    and "pos_tensor l n m point_estimate" "pos_tensor l n m combined"
    and "list_all (\<lambda>i. 0 < i \<and> i < l \<and> i < length recombination_rate
            \<and> 0 \<le> recombination_rate ! i \<and> recombination_rate ! i \<le> 1) loci"
  shows "\<exists>result. forward_loop point_estimate recombination_rate in_place loci combined = Inr result
           \<and> pos_tensor l n m result"
  using assms(4,5)
proof (induction loci arbitrary: combined)
  case Nil
  then show ?case by simp
next
  case (Cons i loci)
  then have i: "0 < i" "i < l" "i < length recombination_rate"
    "0 \<le> recombination_rate ! i" "recombination_rate ! i \<le> 1"
    and rest: "list_all (\<lambda>i. 0 < i \<and> i < l \<and> i < length recombination_rate
            \<and> 0 \<le> recombination_rate ! i \<and> recombination_rate ! i \<le> 1) loci"
    by simp_all
  from i(2) have prev: "pos_grid n m (combined ! (i - 1))"
    by (intro pos_tensor_nth [OF Cons.prems(1)]) simp
  from transmit_pos [OF prev assms(1,2) i(4,5)] obtain forward_i where
    t: "transmit (combined ! (i - 1)) (recombination_rate ! i) = Inr forward_i"
    and fpos: "pos_grid n m forward_i" by blast
  have point: "pos_grid n m ((if in_place then combined else point_estimate) ! i)"
    using pos_tensor_nth [OF Cons.prems(1) i(2)] pos_tensor_nth [OF assms(3) i(2)] by simp
  let ?combined_i = "mult_grid ((if in_place then combined else point_estimate) ! i) forward_i"
  from normalize_pos [OF mult_grid_pos [OF point fpos] assms(1,2)] obtain normalized where
    d: "divide_grid ?combined_i (np_sum2 ?combined_i) = Inr normalized"
    and npos: "pos_grid n m normalized" by blast
  from Cons.IH [OF pos_tensor_update [OF Cons.prems(1) npos] rest] obtain result where
    "forward_loop point_estimate recombination_rate in_place loci (combined[i := normalized])
       = Inr result" "pos_tensor l n m result" by blast
  with i(3) t d show ?case
    by (simp add: get_Inr Let_def)
qed

lemma backward_loop_returns:
  assumes "0 < n" "0 < m"
    and "pos_tensor l n m point_estimate" "pos_tensor l n m backward"
    and "list_all (\<lambda>i. i + 1 < l \<and> i < length recombination_rate
            \<and> 0 \<le> recombination_rate ! i \<and> recombination_rate ! i \<le> 1) loci"
  shows "\<exists>result. backward_loop point_estimate recombination_rate loci backward = Inr result
           \<and> pos_tensor l n m result"
  using assms(4,5)
proof (induction loci arbitrary: backward)
  case Nil
  then show ?case by simp
next
  case (Cons i loci)
  then have i: "i + 1 < l" "i < length recombination_rate"
    "0 \<le> recombination_rate ! i" "recombination_rate ! i \<le> 1"
    and rest: "list_all (\<lambda>i. i + 1 < l \<and> i < length recombination_rate
            \<and> 0 \<le> recombination_rate ! i \<and> recombination_rate ! i \<le> 1) loci"
    by simp_all
  let ?combined_i = "mult_grid (backward ! (i + 1)) (point_estimate ! (i + 1))"
  have "pos_grid n m ?combined_i"
    by (intro mult_grid_pos pos_tensor_nth [OF Cons.prems(1) i(1)]
        pos_tensor_nth [OF assms(3) i(1)])
  from normalize_pos [OF this assms(1,2)] obtain normalized where
    d: "divide_grid ?combined_i (np_sum2 ?combined_i) = Inr normalized"
    and npos: "pos_grid n m normalized" by blast
  from transmit_pos [OF npos assms(1,2) i(3,4)] obtain out where
    t: "transmit normalized (recombination_rate ! i) = Inr out"
    and opos: "pos_grid n m out" by blast
  from Cons.IH [OF pos_tensor_update [OF Cons.prems(1) opos] rest] obtain result where
    "backward_loop point_estimate recombination_rate loci (backward[i := out]) = Inr result"
    "pos_tensor l n m result" by blast
  with i(2) t d show ?case
    by (simp add: get_Inr Let_def)
qed


lemma np_sum3_pos:
  assumes "pos_tensor l n m t" "0 < l" "0 < n" "0 < m"
  shows "0 < np_sum3 t"
proof -
  have "0 < (\<Sum>i\<leftarrow>[0..<l]. np_sum2 (t ! i))"
    by (intro sum_list_upt_pos assms(2) pos_grid_sum [OF _ assms(3,4)]
        pos_tensor_nth [OF assms(1)])
  moreover from assms(1) have "map np_sum2 t = map (\<lambda>i. np_sum2 (t ! i)) [0..<l]"
    by (intro nth_equalityI) (simp_all add: pos_tensor_def)
  ultimately show ?thesis by (simp only: np_sum3_def)
qed

lemma diploid_forward_returns:
  assumes "pos_tensor l n m point_estimate" "0 < l" "0 < n" "0 < m"
    and "l \<le> length recombination_rate"
    and "list_all (\<lambda>e. 0 \<le> e \<and> e \<le> 1) recombination_rate"
  shows "\<exists>combined. diploid_forward point_estimate recombination_rate in_place = Inr combined
           \<and> pos_tensor l n m combined"
proof -
  from assms(1) have len: "length point_estimate = l" by (simp add: pos_tensor_def)
  have total: "0 < np_sum3 point_estimate"
    by (rule np_sum3_pos [OF assms(1-4)])
  have first: "pos_grid n m (map (map (\<lambda>x. x / np_sum3 point_estimate)) (point_estimate ! 0))"
    using pos_tensor_nth [OF assms(1,2)] total
    by (simp add: pos_grid_def is_grid_def list_all_length)
  have loci: "list_all (\<lambda>i. 0 < i \<and> i < l \<and> i < length recombination_rate
            \<and> 0 \<le> recombination_rate ! i \<and> recombination_rate ! i \<le> 1) [1..<l]"
    using assms(5,6) by (auto simp: list_all_length)
  from forward_loop_returns [OF assms(3,4,1) pos_tensor_update [OF assms(1) first] loci]
  show ?thesis
    using total assms(2) len by (simp add: diploid_forward_def Let_def divide_grid_def)
qed

lemma diploid_backward_returns:
  assumes "pos_tensor l n m point_estimate" "0 < n" "0 < m"
    and "l \<le> length recombination_rate"
    and "list_all (\<lambda>e. 0 \<le> e \<and> e \<le> 1) recombination_rate"
  shows "\<exists>backward. diploid_backward point_estimate recombination_rate = Inr backward
           \<and> pos_tensor l n m backward"
proof -
  from assms(1) have len: "length point_estimate = l" by (simp add: pos_tensor_def)
  have ones: "pos_tensor l n m (map (map (map (\<lambda>_. 1))) point_estimate)"
    using assms(1) by (simp add: pos_tensor_def pos_grid_def is_grid_def list_all_length)
  have loci: "list_all (\<lambda>i. i + 1 < l \<and> i < length recombination_rate
            \<and> 0 \<le> recombination_rate ! i \<and> recombination_rate ! i \<le> 1) (rev [0..<l - 1])"
    using assms(4,5) by (auto simp: list_all_iff list_all_length)
  from backward_loop_returns [OF assms(2,3,1) ones loci]
  show ?thesis
    using len by (simp add: diploid_backward_def Let_def)
qed

lemma sequence_err_returns:
  "list_all (\<lambda>x. \<exists>y. f x = Inr y) xs \<Longrightarrow> \<exists>ys. sequence_err (map f xs) = Inr ys"
  by (induction xs) auto

lemma diploidForwardBackward_returns:
  assumes "is_tensor l n m point_estimate" "0 < l" "0 < n" "0 < m"
    and "list_all (list_all (list_all (\<lambda>x. 0 < x))) point_estimate"
    and "l \<le> length recombination_rate"
    and "list_all (\<lambda>e. 0 \<le> e \<and> e \<le> 1) recombination_rate"
  shows "\<exists>posterior. diploidForwardBackward point_estimate recombination_rate = Inr posterior"
proof -
  have pe: "pos_tensor l n m point_estimate"
    using assms(1,5) by (simp add: pos_tensor_def is_tensor_def pos_grid_def list_all_length)
  from diploid_backward_returns [OF pe assms(3,4,6,7)] obtain est where
    b: "diploid_backward point_estimate recombination_rate = Inr est"
    and bpos: "pos_tensor l n m est" by blast
  from diploid_forward_returns [OF pe assms(2,3,4,6,7)] obtain forward where
    f: "diploid_forward point_estimate recombination_rate True = Inr forward"
    and fpos: "pos_tensor l n m forward" by blast
  have "list_all (\<lambda>slice. \<exists>b. divide_grid slice (np_sum2 slice) = Inr b)
          (map2 mult_grid est forward)"
    using bpos fpos
      normalize_pos [OF mult_grid_pos [OF pos_tensor_nth [OF bpos] pos_tensor_nth [OF fpos]]
        assms(3,4)]
    by (simp add: list_all_length pos_tensor_def) blast
  from sequence_err_returns [OF this] b f show ?thesis
    by (simp add: diploidForwardBackward_def bind_err_def)
qed

end
